theory Spec2Isabelle
  imports Complex_Main
begin

section \<open>Conventions of the embedding\<close>

text \<open>
  The development embeds the emotion pipeline of \<^verbatim>\<open>backend/model_adapter.py\<close>, the
  timeline functions of \<^verbatim>\<open>backend/main.py\<close> and the conversation store of
  \<^verbatim>\<open>backend/storage.py\<close>.

  \<^item> A Python \<^verbatim>\<open>str\<close> is the list of its Unicode code points (\<open>pystr\<close>); \<open>str\<close>
    turns an ASCII literal into that list.
  \<^item> A Python \<^verbatim>\<open>float\<close> is an exact rational: rounding, NaN and the infinities are
    not part of the arithmetic (the one place where the source can meet them, the
    result of \<^verbatim>\<open>float(...)\<close>, carries them explicitly and clamps them away as the
    source does).
  \<^item> A \<^verbatim>\<open>dict\<close> whose iteration order the code depends on is an association list in
    insertion order.
\<close>

type_synonym pystr = "nat list"

definition str :: "string \<Rightarrow> pystr" where
  "str s = map of_char s"

type_synonym dist = "(pystr \<times> rat) list"

subsection \<open>Library functions of the Python runtime\<close>

text \<open>
  Three library functions the code calls depend on the Unicode database or on the
  floating-point parser. They are parameters of the model, so that every general theorem
  holds for whatever the runtime's tables are: \<^verbatim>\<open>str.lower()\<close>, \<^verbatim>\<open>str.isalnum()\<close> on the
  code points from 128 on (it decides \<^verbatim>\<open>\\w\<close> and so \<^verbatim>\<open>\\b\<close> there; on ASCII the word
  characters are written out), and \<^verbatim>\<open>float(s)\<close>, whose result is a finite number, an
  infinity or a NaN, or the exception \<^verbatim>\<open>ValueError\<close> (\<open>None\<close>).
\<close>

datatype pyfloat = Finite rat | PosInf | NegInf | NaN

record runtime =
  str_lower :: "pystr \<Rightarrow> pystr"
  isalnum_high :: "nat \<Rightarrow> bool"
  float_of :: "pystr \<Rightarrow> pyfloat option"

text \<open>\<^verbatim>\<open>str.isspace()\<close> of one code point; it is what \<^verbatim>\<open>\\s\<close> and \<^verbatim>\<open>str.strip()\<close> use.\<close>

definition is_space :: "nat \<Rightarrow> bool" where
  "is_space c =
     ((9 \<le> c \<and> c \<le> 13) \<or> (28 \<le> c \<and> c \<le> 32) \<or> c = 133 \<or> c = 160 \<or> c = 5760
      \<or> (8192 \<le> c \<and> c \<le> 8202) \<or> c = 8232 \<or> c = 8233 \<or> c = 8239 \<or> c = 8287
      \<or> c = 12288)"

text \<open>\<^verbatim>\<open>\\w\<close> of a \<^verbatim>\<open>str\<close> pattern: alphanumeric or the underscore.\<close>

definition is_word :: "runtime \<Rightarrow> nat \<Rightarrow> bool" where
  "is_word R c =
     (if c < 128
      then (48 \<le> c \<and> c \<le> 57) \<or> (65 \<le> c \<and> c \<le> 90) \<or> c = 95 \<or> (97 \<le> c \<and> c \<le> 122)
      else isalnum_high R c)"

text \<open>The runtime restricted to ASCII text, for evaluating the model on ASCII inputs.\<close>

definition ascii_lower :: "pystr \<Rightarrow> pystr" where
  "ascii_lower s = map (\<lambda>c. if 65 \<le> c \<and> c \<le> 90 then c + 32 else c) s"

definition ascii_runtime :: runtime where
  "ascii_runtime =
     \<lparr>str_lower = ascii_lower, isalnum_high = (\<lambda>c. False), float_of = (\<lambda>s. None)\<rparr>"

subsection \<open>Strings, dictionaries and \<^verbatim>\<open>max\<close>\<close>

text \<open>\<^verbatim>\<open>s.strip()\<close>, \<^verbatim>\<open>sub in s\<close> and \<^verbatim>\<open>s.split(c)\<close> for a one-character separator.\<close>

definition strip :: "pystr \<Rightarrow> pystr" where
  "strip s = rev (dropWhile is_space (rev (dropWhile is_space s)))"

definition starts_with :: "pystr \<Rightarrow> pystr \<Rightarrow> bool" where
  "starts_with s l = (take (length l) s = l)"

fun contains :: "pystr \<Rightarrow> pystr \<Rightarrow> bool" where
  "contains sub [] = (sub = [])"
| "contains sub (x # xs) = (starts_with (x # xs) sub \<or> contains sub xs)"

fun split_on :: "nat \<Rightarrow> pystr \<Rightarrow> pystr list" where
  "split_on c [] = [[]]"
| "split_on c (x # xs) =
     (if x = c then [] # split_on c xs
      else (case split_on c xs of [] \<Rightarrow> [[x]] | h # t \<Rightarrow> (x # h) # t))"

text \<open>
  \<^verbatim>\<open>d.get(k, default)\<close> and \<^verbatim>\<open>d[k] = v\<close>: an existing key keeps its place, a new key goes
  to the end.
\<close>

definition dict_get :: "('k \<times> 'v) list \<Rightarrow> 'k \<Rightarrow> 'v \<Rightarrow> 'v" where
  "dict_get d k dflt = (case map_of d k of None \<Rightarrow> dflt | Some v \<Rightarrow> v)"

fun dict_set :: "('k \<times> 'v) list \<Rightarrow> 'k \<Rightarrow> 'v \<Rightarrow> ('k \<times> 'v) list" where
  "dict_set [] k v = [(k, v)]"
| "dict_set ((k', v') # d) k v = (if k' = k then (k, v) # d else (k', v') # dict_set d k v)"

text \<open>
  \<^verbatim>\<open>max(xs, key=f)\<close> returns the first of the maximal elements and raises
  \<^verbatim>\<open>ValueError\<close> on an empty sequence (\<open>None\<close>).
\<close>

fun max_from :: "('a \<Rightarrow> 'b::linorder) \<Rightarrow> 'a \<Rightarrow> 'a list \<Rightarrow> 'a" where
  "max_from key best [] = best"
| "max_from key best (x # xs) = max_from key (if key x > key best then x else best) xs"

definition py_max :: "('a \<Rightarrow> 'b::linorder) \<Rightarrow> 'a list \<Rightarrow> 'a option" where
  "py_max key xs = (case xs of [] \<Rightarrow> None | x # r \<Rightarrow> Some (max_from key x r))"

subsection \<open>Regular expressions\<close>

text \<open>
  The patterns of the source are sequences of the items below; \<open>re_match\<close> decides
  whether some match of the sequence starts at the current position, given the character
  before it (for \<^verbatim>\<open>\\b\<close>) and the rest of the text, and \<open>re_search\<close> is
  \<^verbatim>\<open>re.search(pattern, s) is not None\<close>: a match starting at some position. No flags are
  set in the source, so \<^verbatim>\<open>.\<close> excludes the newline and \<^verbatim>\<open>$\<close> is the end of the text or the
  position before a final newline.
\<close>

datatype cls = Dot | Space | UpperAZ | OneOf pystr

fun in_cls :: "cls \<Rightarrow> nat \<Rightarrow> bool" where
  "in_cls Dot c = (c \<noteq> 10)"
| "in_cls Space c = is_space c"
| "in_cls UpperAZ c = (65 \<le> c \<and> c \<le> 90)"
| "in_cls (OneOf cs) c = (c \<in> set cs)"

datatype item = Lit pystr | Alt "pystr list" | Star cls | Plus cls | Opt cls
  | AtLeast nat cls | WordB | Eol

definition word_opt :: "runtime \<Rightarrow> nat option \<Rightarrow> bool" where
  "word_opt R p = (case p of None \<Rightarrow> False | Some c \<Rightarrow> is_word R c)"

definition next_char :: "pystr \<Rightarrow> nat option" where
  "next_char s = (case s of [] \<Rightarrow> None | x # _ \<Rightarrow> Some x)"

definition prev_after :: "nat option \<Rightarrow> pystr \<Rightarrow> nat option" where
  "prev_after p l = (if l = [] then p else Some (last l))"

fun re_match :: "runtime \<Rightarrow> item list \<Rightarrow> nat option \<Rightarrow> pystr \<Rightarrow> bool" where
  "re_match R [] p s = True"
| "re_match R (Lit l # r) p s =
     (starts_with s l \<and> re_match R r (prev_after p l) (drop (length l) s))"
| "re_match R (Alt ls # r) p s =
     list_ex (\<lambda>l. starts_with s l \<and> re_match R r (prev_after p l) (drop (length l) s)) ls"
| "re_match R (Star c # r) p s =
     (re_match R r p s \<or>
      (case s of [] \<Rightarrow> False
       | x # xs \<Rightarrow> in_cls c x \<and> re_match R (Star c # r) (Some x) xs))"
| "re_match R (Plus c # r) p s =
     (case s of [] \<Rightarrow> False
      | x # xs \<Rightarrow> in_cls c x \<and> re_match R (Star c # r) (Some x) xs)"
| "re_match R (Opt c # r) p s =
     (re_match R r p s \<or>
      (case s of [] \<Rightarrow> False | x # xs \<Rightarrow> in_cls c x \<and> re_match R r (Some x) xs))"
| "re_match R (AtLeast 0 c # r) p s =
     (re_match R r p s \<or>
      (case s of [] \<Rightarrow> False
       | x # xs \<Rightarrow> in_cls c x \<and> re_match R (AtLeast 0 c # r) (Some x) xs))"
| "re_match R (AtLeast (Suc n) c # r) p s =
     (case s of [] \<Rightarrow> False
      | x # xs \<Rightarrow> in_cls c x \<and> re_match R (AtLeast n c # r) (Some x) xs)"
| "re_match R (WordB # r) p s =
     (word_opt R p \<noteq> word_opt R (next_char s) \<and> re_match R r p s)"
| "re_match R (Eol # r) p s = ((s = [] \<or> s = [10]) \<and> re_match R r p s)"

fun re_search_from :: "runtime \<Rightarrow> item list \<Rightarrow> nat option \<Rightarrow> pystr \<Rightarrow> bool" where
  "re_search_from R items p [] = re_match R items p []"
| "re_search_from R items p (x # xs) =
     (re_match R items p (x # xs) \<or> re_search_from R items (Some x) xs)"

definition re_search :: "runtime \<Rightarrow> item list \<Rightarrow> pystr \<Rightarrow> bool" where
  "re_search R items s = re_search_from R items None s"


section \<open>Emotion scorer (model_adapter.py)\<close>

definition EMOTIONS :: "pystr list" where
  "EMOTIONS = map str [''joy'', ''sadness'', ''anger'', ''fear'', ''surprise'', ''stress'',
     ''tension'', ''disgust'', ''anticipation'', ''neutral'']"

definition EMOTION_KEYWORDS :: "(pystr \<times> pystr list) list" where
  "EMOTION_KEYWORDS =
    [(str ''joy'', map str [''happy'', ''excited'', ''wonderful'', ''amazing'', ''love'',
        ''fantastic'', ''excellent'', ''thrilled'', ''delighted'', ''glad'', ''joyful'']),
     (str ''sadness'', map str [''sad'', ''depressed'', ''unhappy'', ''miserable'',
        ''heartbroken'', ''devastated'', ''lonely'', ''hurt'', ''crying'', ''low'', ''down'',
        ''blue'']),
     (str ''anger'', map str [''angry'', ''mad'', ''furious'', ''irritated'', ''annoyed'',
        ''pissed'', ''hate'', ''ridiculous'', ''outrageous'', ''dislike'', ''frustrat'']),
     (str ''fear'', map str [''scared'', ''afraid'', ''terrified'', ''anxious'', ''worried'',
        ''nervous'', ''frightened'', ''panic'']),
     (str ''surprise'', map str [''surprised'', ''shocked'', ''amazed'', ''unexpected'',
        ''wow'', ''omg'', ''incredible'']),
     (str ''disgust'', map str [''disgusted'', ''gross'', ''sick'', ''revolting'', ''nasty'',
        ''eww'', ''yuck'', ''idiot'', ''stupid'', ''dumb'', ''moron'']),
     (str ''stress'', map str [''stressed'', ''overwhelmed'', ''pressure'', ''tense'',
        ''exhausted'', ''burned out'']),
     (str ''tension'', map str [''tension'', ''awkward'', ''uncomfortable'', ''uneasy'']),
     (str ''anticipation'', map str [''looking forward'', ''can'' @ [CHR 0x27] @ ''t wait'',
        ''eager'', ''anticipating'', ''hopeful'', ''expecting''])]"

text \<open>The emoji tables, each emoji being one code point, in the order of the source.\<close>

definition EMOTION_EMOJIS :: "(pystr \<times> pystr list) list" where
  "EMOTION_EMOJIS =
    [(str ''joy'', [[128522], [128515], [128516], [128513], [128518], [129303], [129392],
        [128525], [127881], [10024]]),
     (str ''sadness'', [[128546], [128557], [128532], [128542], [128148], [128575]]),
     (str ''anger'', [[128545], [128544], [129324], [128548], [128162]]),
     (str ''fear'', [[128561], [128552], [128560], [128551], [128550]]),
     (str ''surprise'', [[128562], [128558], [128559], [129327]]),
     (str ''disgust'', [[129314], [129326], [128534], [128547]]),
     (str ''stress'', [[128555], [128553], [128531], [128560]]),
     (str ''anticipation'', [[129321], [128525], [129395]])]"

text \<open>\<^verbatim>\<open>!!+\<close>, \<^verbatim>\<open>\?\?+\<close> and \<^verbatim>\<open>[A-Z]{3,}\<close>.\<close>

definition EMPHASIS_PATTERNS :: "item list list" where
  "EMPHASIS_PATTERNS =
    [[Lit (str ''!''), Plus (OneOf (str ''!''))],
     [Lit (str ''?''), Plus (OneOf (str ''?''))],
     [AtLeast (Suc (Suc (Suc 0))) UpperAZ]]"

definition emotion_priority :: "pystr list" where
  "emotion_priority = map str [''disgust'', ''anger'', ''sadness'', ''fear'', ''surprise'',
     ''joy'', ''stress'', ''tension'', ''anticipation'']"

text \<open>\<^verbatim>\<open>re.search(r'\b' + re.escape(keyword), text_lower)\<close>\<close>

definition keyword_matches :: "runtime \<Rightarrow> pystr \<Rightarrow> pystr \<Rightarrow> bool" where
  "keyword_matches R keyword text_lower = re_search R [WordB, Lit keyword] text_lower"

text \<open>The keyword loop: the first emotion of the priority list with a matching keyword.\<close>

fun keyword_scan :: "runtime \<Rightarrow> pystr list \<Rightarrow> pystr \<Rightarrow> pystr option" where
  "keyword_scan R [] text_lower = None"
| "keyword_scan R (emotion # es) text_lower =
     (if list_ex (\<lambda>keyword. keyword_matches R keyword text_lower)
           (dict_get EMOTION_KEYWORDS emotion [])
      then Some emotion else keyword_scan R es text_lower)"

text \<open>The emoji loop: the first table, in table order, one of whose emojis is in the text.\<close>

fun emoji_scan :: "(pystr \<times> pystr list) list \<Rightarrow> pystr \<Rightarrow> pystr option" where
  "emoji_scan [] text = None"
| "emoji_scan ((emotion, emojis) # es) text =
     (if list_ex (\<lambda>emoji. contains emoji text) emojis then Some emotion
      else emoji_scan es text)"

definition has_emotion_signal :: "runtime \<Rightarrow> pystr \<Rightarrow> bool \<times> pystr" where
  "has_emotion_signal R text =
     (let text_lower = str_lower R text
      in case keyword_scan R emotion_priority text_lower of
           Some emotion \<Rightarrow> (True, emotion)
         | None \<Rightarrow>
            (case emoji_scan EMOTION_EMOJIS text of
               Some emotion \<Rightarrow> (True, emotion)
             | None \<Rightarrow>
                if list_ex (\<lambda>pattern. re_search R pattern text) EMPHASIS_PATTERNS
                then (True, str ''emphasis_detected'')
                else (False, str ''no_signal'')))"

text \<open>\<^verbatim>\<open>max(0.0, min(1.0, prob))\<close> with Python's \<^verbatim>\<open>min\<close> and \<^verbatim>\<open>max\<close>: the second argument
  replaces the first only when the comparison holds, which it never does for a NaN.\<close>

fun clamp01 :: "pyfloat \<Rightarrow> rat" where
  "clamp01 (Finite q) = (if q < 1 then (if q > 0 then q else 0) else 1)"
| "clamp01 PosInf = 1"
| "clamp01 NegInf = 0"
| "clamp01 NaN = 1"

definition uniform_distribution :: dist where
  "uniform_distribution = map (\<lambda>emotion. (emotion, 1 / of_nat (length EMOTIONS))) EMOTIONS"

definition normalise :: "dist \<Rightarrow> dist" where
  "normalise d = (let total = sum_list (map snd d) in map (\<lambda>(k, v). (k, v / total)) d)"

text \<open>
  The loop over the comma-separated pairs of \<open>_parse_emotion_response\<close>; \<open>None\<close> is an
  exception inside the \<^verbatim>\<open>try\<close> block: unpacking \<^verbatim>\<open>pair.split(':')\<close> into two names when
  there are more than two parts, or \<^verbatim>\<open>float\<close> raising.
\<close>

fun parse_pairs :: "runtime \<Rightarrow> pystr list \<Rightarrow> dist \<Rightarrow> dist option" where
  "parse_pairs R [] emotion_probs = Some emotion_probs"
| "parse_pairs R (pair # pairs) emotion_probs =
     (if contains (str '':'') pair
      then (case split_on 58 pair of
              [emotion, prob] \<Rightarrow>
                (let emotion = strip emotion
                 in case float_of R (strip prob) of
                      None \<Rightarrow> None
                    | Some prob \<Rightarrow>
                        parse_pairs R pairs
                          (if emotion \<in> set EMOTIONS
                           then dict_set emotion_probs emotion (clamp01 prob)
                           else emotion_probs))
            | _ \<Rightarrow> None)
      else parse_pairs R pairs emotion_probs)"

definition parse_emotion_response :: "runtime \<Rightarrow> pystr \<Rightarrow> dist" where
  "parse_emotion_response R response_text =
     (case parse_pairs R (split_on 44 (strip (str_lower R response_text)))
             (map (\<lambda>emotion. (emotion, 0)) EMOTIONS) of
        None \<Rightarrow> uniform_distribution
      | Some emotion_probs \<Rightarrow>
          if sum_list (map snd emotion_probs) > 0 then normalise emotion_probs
          else uniform_distribution)"

text \<open>
  Step 2 of \<open>classify_emotion\<close>: the distribution built for a detected emotion.
\<close>

definition keyword_distribution :: "pystr \<Rightarrow> dist" where
  "keyword_distribution signal_type =
     (let emotion_probs = map (\<lambda>emotion. (emotion, 2 / 100)) EMOTIONS;
          emotion_probs = dict_set emotion_probs signal_type (80 / 100);
          emotion_probs = dict_set emotion_probs (str ''neutral'') (1 / 100);
          emotion_probs =
            (if signal_type = str ''disgust''
             then dict_set emotion_probs (str ''anger'') (12 / 100)
             else if signal_type = str ''anger''
             then dict_set emotion_probs (str ''disgust'') (8 / 100)
             else if signal_type = str ''sadness''
             then dict_set emotion_probs (str ''fear'') (5 / 100)
             else emotion_probs)
      in normalise emotion_probs)"

text \<open>
  Step 3: \<^verbatim>\<open>yeah\s+(right|sure|great|okay).*not\<close>, \<^verbatim>\<open>oh\s+(great|wonderful|fantastic).*\.\.\.\<close>,
  \<^verbatim>\<open>sure\s*[,.]?\s*whatever\<close> and \<^verbatim>\<open>fine\s*[.!]+\s*$\<close>, and the distribution returned on a
  match.
\<close>

definition sarcasm_patterns :: "item list list" where
  "sarcasm_patterns =
    [[Lit (str ''yeah''), Plus Space, Alt (map str [''right'', ''sure'', ''great'', ''okay'']),
      Star Dot, Lit (str ''not'')],
     [Lit (str ''oh''), Plus Space, Alt (map str [''great'', ''wonderful'', ''fantastic'']),
      Star Dot, Lit (str ''...'')],
     [Lit (str ''sure''), Star Space, Opt (OneOf (str '',.'')), Star Space,
      Lit (str ''whatever'')],
     [Lit (str ''fine''), Star Space, Plus (OneOf (str ''.!'')), Star Space, Eol]]"

definition sarcasm_distribution :: dist where
  "sarcasm_distribution =
     (let emotion_probs = map (\<lambda>emotion. (emotion, 5 / 100)) EMOTIONS;
          emotion_probs = dict_set emotion_probs (str ''anger'') (5 / 10);
          emotion_probs = dict_set emotion_probs (str ''disgust'') (2 / 10);
          emotion_probs = dict_set emotion_probs (str ''neutral'') (5 / 100)
      in emotion_probs)"

text \<open>
  Step 4 after the parse, the anti-neutral enforcement. \<open>None\<close> is an exception raised
  inside the \<^verbatim>\<open>try\<close> block (a missing \<^verbatim>\<open>"neutral"\<close> key, \<^verbatim>\<open>max\<close> of an empty dictionary), which
  the \<^verbatim>\<open>except\<close> turns into the fallback. \<^verbatim>\<open>max(non_neutral, key=non_neutral.get)\<close> runs over
  the keys and looks each one up again.
\<close>

definition anti_neutral :: "dist \<Rightarrow> dist option" where
  "anti_neutral emotion_probs =
     (let max_non_neutral =
            (case py_max id (map snd (filter (\<lambda>(k, v). k \<noteq> str ''neutral'') emotion_probs)) of
               None \<Rightarrow> 0 | Some m \<Rightarrow> m)
      in case map_of emotion_probs (str ''neutral'') of
           None \<Rightarrow> None
         | Some neutral_value \<Rightarrow>
             if neutral_value > 5 / 10 \<and> max_non_neutral \<ge> 30 / 100
             then (let non_neutral = filter (\<lambda>(k, v). k \<noteq> str ''neutral'') emotion_probs
                   in case py_max (\<lambda>k. dict_get non_neutral k 0) (map fst non_neutral) of
                        None \<Rightarrow> None
                      | Some max_emotion \<Rightarrow>
                          (let emotion_probs = dict_set emotion_probs max_emotion (6 / 10);
                               emotion_probs = dict_set emotion_probs (str ''neutral'') (2 / 10);
                               remaining = 2 / 10
                           in Some (map (\<lambda>(emotion, v).
                                      if emotion \<notin> set [max_emotion, str ''neutral'']
                                      then (emotion, remaining / (of_nat (length EMOTIONS) - 2))
                                      else (emotion, v)) emotion_probs)))
             else if emotion_probs = [] then None
             else Some emotion_probs)"

text \<open>
  The call of the external classifier, \<^verbatim>\<open>model.generate_content(prompt).text\<close>, is the
  parameter \<open>generate\<close>: the prompt is built from the text and the last five turns of the
  history, and the call either yields the response text or raises (\<open>None\<close>).
\<close>

type_synonym history = "(pystr \<times> pystr) list list"

definition gemini_step ::
  "runtime \<Rightarrow> (pystr \<Rightarrow> history \<Rightarrow> pystr option) \<Rightarrow> pystr \<Rightarrow> history \<Rightarrow> dist option" where
  "gemini_step R generate text chat_history =
     (case generate text chat_history of
        None \<Rightarrow> None
      | Some response \<Rightarrow> anti_neutral (parse_emotion_response R (strip response)))"

text \<open>Step 5, the fallback.\<close>

definition fallback_distribution :: "pystr \<Rightarrow> dist" where
  "fallback_distribution text =
     (if length (strip text) < 10 \<and> \<not> contains (str ''?'') text \<and> \<not> contains (str ''!'') text
      then map (\<lambda>emotion. (emotion, 1 / 10)) EMOTIONS
      else [(str ''joy'', 10 / 100), (str ''sadness'', 10 / 100), (str ''anger'', 10 / 100),
            (str ''fear'', 10 / 100), (str ''surprise'', 10 / 100), (str ''stress'', 8 / 100),
            (str ''tension'', 8 / 100), (str ''disgust'', 8 / 100),
            (str ''anticipation'', 10 / 100), (str ''neutral'', 16 / 100)])"

definition classify_emotion ::
  "runtime \<Rightarrow> (pystr \<Rightarrow> history \<Rightarrow> pystr option) \<Rightarrow> pystr \<Rightarrow> history \<Rightarrow> dist" where
  "classify_emotion R generate text chat_history =
     (case has_emotion_signal R text of
        (has_signal, signal_type) \<Rightarrow>
          if has_signal \<and> signal_type \<in> set EMOTIONS then keyword_distribution signal_type
          else if list_ex (\<lambda>pattern. re_search R pattern (str_lower R text)) sarcasm_patterns
          then sarcasm_distribution
          else (case gemini_step R generate text chat_history of
                  Some emotion_probs \<Rightarrow> emotion_probs
                | None \<Rightarrow> fallback_distribution text))"

section \<open>Timeline engine (main.py)\<close>

text \<open>
  \<^verbatim>\<open>for i in range(1, len(values) - 1): if values[i] > threshold and
  values[i] > values[i-1] and values[i] > values[i+1]: peaks.append(i)\<close>
\<close>

function peaks_loop :: "rat list \<Rightarrow> rat \<Rightarrow> nat \<Rightarrow> nat list \<Rightarrow> nat list" where
  "peaks_loop values threshold i peaks =
     (if i + 1 < length values
      then peaks_loop values threshold (Suc i)
             (if values ! i > threshold \<and> values ! i > values ! (i - 1)
                 \<and> values ! i > values ! (i + 1)
              then peaks @ [i] else peaks)
      else peaks)"
  by pat_completeness auto
termination
  by (relation "measure (\<lambda>(values, threshold, i, peaks). length values - i)") auto

declare peaks_loop.simps [simp del]

text \<open>
  \<^verbatim>\<open>if len(values) > 0 and values[-1] > threshold: peaks.append(len(values) - 1)\<close>
\<close>

definition detect_peaks :: "rat list \<Rightarrow> rat \<Rightarrow> nat list" where
  "detect_peaks values threshold =
     (let peaks = peaks_loop values threshold 1 []
      in if length values > 0 \<and> last values > threshold
         then peaks @ [length values - 1] else peaks)"


section \<open>Conversation store (storage.py)\<close>

text \<open>
  The values of \<^verbatim>\<open>EmotionType\<close> (models.py), in declaration order; the store builds its
  timelines and its placeholder scores from them.
\<close>

definition EmotionType :: "pystr list" where
  "EmotionType = map str [''joy'', ''sadness'', ''anger'', ''fear'', ''surprise'', ''stress'',
     ''tension'', ''disgust'', ''anticipation'', ''neutral'']"

datatype error = ValueError | KeyError pystr

record message =
  msg_id :: nat
  msg_speaker :: pystr
  msg_text :: pystr
  msg_ts :: pystr
  msg_probs :: dist
  msg_dominant :: pystr
  msg_entropy :: rat
  msg_confidence :: pystr

record metadata =
  chatId :: pystr
  meta_id :: pystr
  userId :: pystr
  title :: pystr
  createdAt :: pystr
  lastUpdatedAt :: pystr
  snippet :: pystr
  dominant_emotion :: pystr
  messageCount :: nat

record chat =
  chat_metadata :: metadata
  messages :: "message list"
  emotionTimeline :: "(pystr \<times> rat list) list"

record summary =
  sum_chatId :: pystr
  sum_id :: pystr
  sum_dominant_emotion :: pystr
  scores :: dist
  confidence :: rat
  summary_text :: "pystr option"
  generatedAt :: pystr

text \<open>
  The state of a \<^verbatim>\<open>ChatStorage\<close>: \<^verbatim>\<open>chats\<close> and \<^verbatim>\<open>emotion_cache\<close> are dictionaries that
  the code only looks up and updates by key, \<^verbatim>\<open>user_chats\<close> is a \<^verbatim>\<open>defaultdict(list)\<close>.
  Writing the state to disk (\<^verbatim>\<open>_persist\<close>) changes nothing in it and swallows its own
  failures, so it has no counterpart here. Chat ids (a random UUID prefix) and time
  stamps are arguments of the operations.
\<close>

record storage =
  chats :: "pystr \<rightharpoonup> chat"
  user_chats :: "pystr \<Rightarrow> pystr list"
  emotion_cache :: "pystr \<rightharpoonup> summary"

definition empty_storage :: storage where
  "empty_storage = \<lparr>chats = Map.empty, user_chats = (\<lambda>u. []), emotion_cache = Map.empty\<rparr>"

text \<open>\<^verbatim>\<open>text.split()\<close>: the maximal runs of characters that are not white space.\<close>

fun py_split :: "pystr \<Rightarrow> pystr \<Rightarrow> pystr list" where
  "py_split cur [] = (if cur = [] then [] else [cur])"
| "py_split cur (c # cs) =
     (if is_space c then (if cur = [] then [] else [cur]) @ py_split [] cs
      else py_split (cur @ [c]) cs)"

fun join :: "pystr \<Rightarrow> pystr list \<Rightarrow> pystr" where
  "join sep [] = []"
| "join sep [w] = w"
| "join sep (w # ws) = w @ sep @ join sep ws"

definition generate_title :: "pystr \<Rightarrow> pystr" where
  "generate_title txt =
     (let words = take 5 (py_split [] txt);
          title = join (str '' '') words
      in if length (py_split [] txt) > 5 then title @ str ''...'' else title)"

text \<open>
  \<^verbatim>\<open>create_chat\<close>; \<open>initial_message\<close> is \<open>None\<close> for Python's \<^verbatim>\<open>None\<close>, and the empty
  string is as false as \<^verbatim>\<open>None\<close> in the two conditional expressions.
\<close>

definition create_chat ::
  "storage \<Rightarrow> pystr \<Rightarrow> pystr option \<Rightarrow> pystr \<Rightarrow> pystr \<Rightarrow> storage \<times> (pystr \<times> pystr)" where
  "create_chat S user_id initial_message chat_id created_at =
     (let snippet' =
            (case initial_message of
               Some m \<Rightarrow> if m \<noteq> [] \<and> length m > 50 then take 50 m @ str ''...''
                         else if m \<noteq> [] then m else str ''New chat''
             | None \<Rightarrow> str ''New chat'');
          title' =
            (case initial_message of
               Some m \<Rightarrow> if m \<noteq> [] then generate_title m else str ''New Chat''
             | None \<Rightarrow> str ''New Chat'');
          chat_data =
            \<lparr>chat_metadata =
               \<lparr>chatId = chat_id, meta_id = chat_id, userId = user_id, title = title',
                createdAt = created_at, lastUpdatedAt = created_at, snippet = snippet',
                dominant_emotion = str ''neutral'', messageCount = 0\<rparr>,
             messages = [],
             emotionTimeline = map (\<lambda>emotion. (emotion, [])) EmotionType\<rparr>
      in (S\<lparr>chats := (chats S)(chat_id \<mapsto> chat_data),
            user_chats := (user_chats S)(user_id := user_chats S user_id @ [chat_id])\<rparr>,
          (chat_id, created_at)))"

text \<open>
  The timeline loop of \<^verbatim>\<open>add_message\<close>,
  \<^verbatim>\<open>for emotion, prob in probs.items(): chat["emotionTimeline"][emotion].append(prob)\<close>:
  a label that is not a key of the timeline raises \<^verbatim>\<open>KeyError\<close> and leaves the appends
  made so far in place.
\<close>

fun timeline_append ::
  "(pystr \<times> rat list) list \<Rightarrow> dist \<Rightarrow> (pystr \<times> rat list) list \<times> error option" where
  "timeline_append tml [] = (tml, None)"
| "timeline_append tml ((emotion, prob) # ps) =
     (case map_of tml emotion of
        None \<Rightarrow> (tml, Some (KeyError emotion))
      | Some l \<Rightarrow> timeline_append (dict_set tml emotion (l @ [prob])) ps)"

text \<open>
  \<^verbatim>\<open>_update_dominant_emotion\<close>: the counting loop over a \<^verbatim>\<open>defaultdict(int)\<close>, whose keys
  are in the order of their first occurrence, and \<^verbatim>\<open>max(emotion_counts,
  key=emotion_counts.get)\<close>. \<open>None\<close> is the \<^verbatim>\<open>ValueError\<close> of \<^verbatim>\<open>max\<close> on an empty dictionary.
\<close>

fun count_dominants :: "message list \<Rightarrow> (pystr \<times> nat) list \<Rightarrow> (pystr \<times> nat) list" where
  "count_dominants [] emotion_counts = emotion_counts"
| "count_dominants (msg # msgs) emotion_counts =
     count_dominants msgs
       (dict_set emotion_counts (msg_dominant msg)
          (dict_get emotion_counts (msg_dominant msg) 0 + 1))"

definition update_dominant_emotion :: "chat \<Rightarrow> chat option" where
  "update_dominant_emotion c =
     (if messages c = [] then Some c
      else (let emotion_counts = count_dominants (messages c) []
            in case py_max (\<lambda>k. dict_get emotion_counts k 0) (map fst emotion_counts) of
                 None \<Rightarrow> None
               | Some dominant \<Rightarrow>
                   Some (c\<lparr>chat_metadata := (chat_metadata c)\<lparr>dominant_emotion := dominant\<rparr>\<rparr>)))"

text \<open>
  \<^verbatim>\<open>add_message\<close> returns the new state and the exception raised, if any. The chat is
  mutated in place, so what was done before an exception stays done.
\<close>

definition add_message ::
  "storage \<Rightarrow> pystr \<Rightarrow> pystr \<Rightarrow> pystr \<Rightarrow> dist \<Rightarrow> pystr \<Rightarrow> rat \<Rightarrow> pystr \<Rightarrow> pystr
     \<Rightarrow> storage \<times> error option" where
  "add_message S chat_id speaker txt probs dominant entropy conf timestamp =
     (case chats S chat_id of
        None \<Rightarrow> (S, Some ValueError)
      | Some c \<Rightarrow>
          (let message_id = length (messages c) + 1;
               msg = \<lparr>msg_id = message_id, msg_speaker = speaker, msg_text = txt,
                      msg_ts = timestamp, msg_probs = probs, msg_dominant = dominant,
                      msg_entropy = entropy, msg_confidence = conf\<rparr>;
               c = c\<lparr>messages := messages c @ [msg]\<rparr>;
               c = c\<lparr>chat_metadata := (chat_metadata c)\<lparr>lastUpdatedAt := timestamp\<rparr>\<rparr>;
               c = c\<lparr>chat_metadata := (chat_metadata c)\<lparr>messageCount := length (messages c)\<rparr>\<rparr>
           in case timeline_append (emotionTimeline c) probs of
                (tml, Some e) \<Rightarrow>
                  (S\<lparr>chats := (chats S)(chat_id \<mapsto> c\<lparr>emotionTimeline := tml\<rparr>)\<rparr>, Some e)
              | (tml, None) \<Rightarrow>
                  (case update_dominant_emotion (c\<lparr>emotionTimeline := tml\<rparr>) of
                     None \<Rightarrow>
                       (S\<lparr>chats := (chats S)(chat_id \<mapsto> c\<lparr>emotionTimeline := tml\<rparr>)\<rparr>,
                        Some ValueError)
                   | Some c \<Rightarrow>
                       (let c =
                          (if speaker = str ''user'' \<and> message_id = 1
                           then c\<lparr>chat_metadata := (chat_metadata c)
                                  \<lparr>snippet := (if length txt > 50 then take 50 txt @ str ''...''
                                               else txt),
                                   title := generate_title txt\<rparr>\<rparr>
                           else c)
                        in (S\<lparr>chats := (chats S)(chat_id \<mapsto> c)\<rparr>, None)))))"

definition update_chat_title :: "storage \<Rightarrow> pystr \<Rightarrow> pystr \<Rightarrow> pystr \<Rightarrow> storage \<times> error option" where
  "update_chat_title S chat_id new_title timestamp =
     (case chats S chat_id of
        None \<Rightarrow> (S, Some ValueError)
      | Some c \<Rightarrow>
          (S\<lparr>chats := (chats S)(chat_id \<mapsto>
                c\<lparr>chat_metadata := (chat_metadata c)
                     \<lparr>title := new_title, lastUpdatedAt := timestamp\<rparr>\<rparr>)\<rparr>, None))"

text \<open>
  \<^verbatim>\<open>delete_chat\<close> returns \<^verbatim>\<open>False\<close> for a missing chat or another owner;
  \<^verbatim>\<open>list.remove\<close> raises \<^verbatim>\<open>ValueError\<close> when the id is not in the owner's list, after the
  chat is gone.
\<close>

definition delete_chat :: "storage \<Rightarrow> pystr \<Rightarrow> pystr \<Rightarrow> storage \<times> (error + bool)" where
  "delete_chat S chat_id user_id =
     (case chats S chat_id of
        None \<Rightarrow> (S, Inr False)
      | Some c \<Rightarrow>
          if userId (chat_metadata c) \<noteq> user_id then (S, Inr False)
          else (let S = S\<lparr>chats := (chats S)(chat_id := None)\<rparr>
                in if chat_id \<notin> set (user_chats S user_id) then (S, Inl ValueError)
                   else (S\<lparr>user_chats :=
                             (user_chats S)(user_id := remove1 chat_id (user_chats S user_id)),
                           emotion_cache := (emotion_cache S)(chat_id := None)\<rparr>,
                         Inr True)))"

text \<open>
  \<^verbatim>\<open>_generate_summary_text\<close>. \<^verbatim>\<open>sorted(scores.items(), key=lambda x: x[1], reverse=True)\<close>
  is a stable sort by decreasing value: an item goes behind the items whose value is at
  least its own.
\<close>

fun insert_desc :: "pystr \<times> rat \<Rightarrow> dist \<Rightarrow> dist" where
  "insert_desc x [] = [x]"
| "insert_desc x (y # ys) = (if snd y \<ge> snd x then y # insert_desc x ys else x # y # ys)"

definition sorted_desc :: "dist \<Rightarrow> dist" where
  "sorted_desc xs = foldl (\<lambda>acc x. insert_desc x acc) [] xs"

definition generate_summary_text :: "pystr \<Rightarrow> dist \<Rightarrow> rat \<Rightarrow> pystr" where
  "generate_summary_text dominant scrs conf =
     (let sorted_emotions = sorted_desc scrs;
          top_emotions = take 2 sorted_emotions;
          primary = dominant;
          secondary =
            (if length top_emotions > 1 \<and> snd (top_emotions ! 1) > 1 / 10
             then Some (fst (top_emotions ! 1)) else None);
          summ =
            (if conf > 7 / 10
             then str ''The conversation is strongly dominated by '' @ primary
             else if conf > 4 / 10
             then str ''The conversation shows '' @ primary
             else str ''The conversation has mixed emotions with some '' @ primary);
          summ =
            (case secondary of
               None \<Rightarrow> summ
             | Some s \<Rightarrow> if s \<noteq> [] \<and> s \<noteq> primary
                        then summ @ str '', with occasional '' @ s else summ)
      in summ @ str ''.'')"

text \<open>
  The sums of \<^verbatim>\<open>get_emotion_summary\<close>, a \<^verbatim>\<open>defaultdict(float)\<close> filled message by message,
  and \<^verbatim>\<open>round(x, 2)\<close>, which rounds to the nearest hundredth and a tie to the even one.
\<close>

fun sum_probs :: "dist \<Rightarrow> dist \<Rightarrow> dist" where
  "sum_probs [] emotion_sums = emotion_sums"
| "sum_probs ((emotion, prob) # ps) emotion_sums =
     sum_probs ps (dict_set emotion_sums emotion (dict_get emotion_sums emotion 0 + prob))"

fun sum_messages :: "message list \<Rightarrow> dist \<Rightarrow> dist" where
  "sum_messages [] emotion_sums = emotion_sums"
| "sum_messages (msg # msgs) emotion_sums =
     sum_messages msgs (sum_probs (msg_probs msg) emotion_sums)"

definition round2 :: "rat \<Rightarrow> rat" where
  "round2 x =
     (let n = x * 100; f = \<lfloor>n\<rfloor>; r = n - of_int f
      in of_int (if r < 1 / 2 then f else if r > 1 / 2 then f + 1
                 else if even f then f else f + 1) / 100)"

text \<open>
  \<^verbatim>\<open>get_emotion_summary\<close> returns \<^verbatim>\<open>None\<close> for a missing chat and the summary otherwise;
  it stores the summary in the cache, except for a chat without messages. \<^verbatim>\<open>ValueError\<close>
  is \<^verbatim>\<open>max\<close> on scores without any label.
\<close>

definition get_emotion_summary ::
  "storage \<Rightarrow> pystr \<Rightarrow> bool \<Rightarrow> pystr \<Rightarrow> storage \<times> (error + summary option)" where
  "get_emotion_summary S chat_id include_summary_text now =
     (case chats S chat_id of
        None \<Rightarrow> (S, Inr None)
      | Some c \<Rightarrow>
          if messages c = []
          then (S, Inr (Some
                 \<lparr>sum_chatId = chat_id, sum_id = chat_id,
                  sum_dominant_emotion = str ''neutral'',
                  scores = map (\<lambda>emotion. (emotion, 1 / 10)) EmotionType,
                  confidence = 0,
                  summary_text =
                    (if include_summary_text then Some (str ''No messages yet.'') else None),
                  generatedAt = now\<rparr>))
          else (let emotion_sums = sum_messages (messages c) [];
                    total_messages = length (messages c);
                    scrs = map (\<lambda>(emotion, v). (emotion, v / of_nat total_messages))
                             emotion_sums
                in case py_max (\<lambda>k. dict_get scrs k 0) (map fst scrs) of
                     None \<Rightarrow> (S, Inl ValueError)
                   | Some dominant \<Rightarrow>
                       (let avg_entropy =
                              sum_list (map msg_entropy (messages c)) / of_nat total_messages;
                            conf = 1 - avg_entropy;
                            result =
                              \<lparr>sum_chatId = chat_id, sum_id = chat_id,
                               sum_dominant_emotion = dominant, scores = scrs,
                               confidence = round2 conf,
                               summary_text =
                                 (if include_summary_text
                                  then Some (generate_summary_text dominant scrs conf)
                                  else None),
                               generatedAt = now\<rparr>
                        in (S\<lparr>emotion_cache := (emotion_cache S)(chat_id \<mapsto> result)\<rparr>,
                            Inr (Some result)))))"

text \<open>
  The states of the store that the operations above produce from the empty store, with
  \<open>add_message\<close> called on probabilities whose keys are the ten labels of \<open>EmotionType\<close>.
\<close>

inductive reachable :: "storage \<Rightarrow> bool" where
  initial: "reachable empty_storage"
| created: "reachable S \<Longrightarrow> reachable (fst (create_chat S user_id initial_message chat_id now))"
| appended: "reachable S \<Longrightarrow> distinct (map fst probs) \<Longrightarrow> set (map fst probs) = set EmotionType
        \<Longrightarrow> reachable (fst (add_message S chat_id speaker txt probs dominant entropy conf now))"
| retitled: "reachable S \<Longrightarrow> reachable (fst (update_chat_title S chat_id new_title now))"
| deleted: "reachable S \<Longrightarrow> reachable (fst (delete_chat S chat_id user_id))"
| summarised: "reachable S
        \<Longrightarrow> reachable (fst (get_emotion_summary S chat_id include_summary_text now))"

text \<open>
  From the words of the specification: the majority vote over the dominant labels, a tie
  going to the label that comes first in a fixed order of the labels.
\<close>

definition majority_by_order :: "pystr list \<Rightarrow> pystr list \<Rightarrow> pystr option" where
  "majority_by_order order ds = py_max (\<lambda>e. count_list ds e) order"

text \<open>The distinct elements of a list in the order of their first occurrence.\<close>

fun first_seen_from :: "'a set \<Rightarrow> 'a list \<Rightarrow> 'a list" where
  "first_seen_from seen [] = []"
| "first_seen_from seen (x # xs) =
     (if x \<in> seen then first_seen_from seen xs else x # first_seen_from (insert x seen) xs)"

definition first_seen :: "'a list \<Rightarrow> 'a list" where
  "first_seen xs = first_seen_from {} xs"

section \<open>Notions used in the statements and proofs\<close>

text \<open>
  The suffixes of a text that start with a word character at a word boundary: the places
  where a keyword of the tables can match.
\<close>

fun word_starts :: "runtime \<Rightarrow> nat option \<Rightarrow> pystr \<Rightarrow> pystr list" where
  "word_starts R p [] = []"
| "word_starts R p (x # xs) =
     (if \<not> word_opt R p \<and> is_word R x then [x # xs] else []) @ word_starts R (Some x) xs"

text \<open>
  From the words of the specification: a keyword matches only as a whole word, a word
  boundary on both sides (\<^verbatim>\<open>\\bkeyword\\b\<close>).
\<close>

definition keyword_matches_whole_word :: "runtime \<Rightarrow> pystr \<Rightarrow> pystr \<Rightarrow> bool" where
  "keyword_matches_whole_word R keyword text_lower =
     re_search R [WordB, Lit keyword, WordB] text_lower"








text \<open>
  The invariant of a stored chat: its timeline has the ten labels as keys, each list as
  long as the message list, which is as long as the message count says.
\<close>

definition chat_inv :: "chat \<Rightarrow> bool" where
  "chat_inv c =
     (map fst (emotionTimeline c) = EmotionType
      \<and> (\<forall>e \<in> set EmotionType. length (dict_get (emotionTimeline c) e []) = length (messages c))
      \<and> messageCount (chat_metadata c) = length (messages c))"

definition store_inv :: "storage \<Rightarrow> bool" where
  "store_inv S = (\<forall>cid c. chats S cid = Some c \<longrightarrow> chat_inv c)"

text \<open>
  Sample states for evaluating the store: a chat created without initial message, and
  messages added to it one after the other with the flat distribution and the given
  dominant labels.
\<close>

definition sample_chat_id :: pystr where
  "sample_chat_id = str ''abc12345''"

definition sample_created :: storage where
  "sample_created =
     fst (create_chat empty_storage (str ''jdoe'') None sample_chat_id (str ''t0''))"

fun sample_appended :: "pystr list \<Rightarrow> storage \<Rightarrow> storage" where
  "sample_appended [] S = S"
| "sample_appended (d # ds) S =
     sample_appended ds
       (fst (add_message S sample_chat_id (str ''user'') (str ''hello'')
               (map (\<lambda>e. (e, 1 / 10)) EmotionType) d 1 (str ''low'') (str ''t1'')))"


section \<open>Properties of the timeline engine\<close>

lemma peaks_loop_filter:
  "peaks_loop vs t i acc =
     acc @ filter (\<lambda>j. vs ! j > t \<and> vs ! j > vs ! (j - 1) \<and> vs ! j > vs ! (j + 1))
             [i ..< length vs - 1]"
proof (induction vs t i acc rule: peaks_loop.induct)
  case (1 vs t i acc)
  show ?case
  proof (cases "i + 1 < length vs")
    case True
    then have "[i ..< length vs - 1] = i # [Suc i ..< length vs - 1]"
      by (simp add: upt_conv_Cons)
    with True "1.IH" show ?thesis
      by (subst peaks_loop.simps) simp
  next
    case False
    then show ?thesis
      by (subst peaks_loop.simps) simp
  qed
qed

lemma detect_peaks_filter:
  "detect_peaks vs t =
     filter (\<lambda>i. vs ! i > t \<and> vs ! i > vs ! (i - 1) \<and> vs ! i > vs ! (i + 1))
       [1 ..< length vs - 1]
     @ (if vs \<noteq> [] \<and> vs ! (length vs - 1) > t then [length vs - 1] else [])"
proof (cases "vs = []")
  case True
  then show ?thesis
    by (simp add: detect_peaks_def peaks_loop_filter)
next
  case False
  then show ?thesis
    by (simp add: detect_peaks_def peaks_loop_filter last_conv_nth Let_def)
qed

text \<open>
  C7. \<open>detect_peaks\<close> returns, in increasing order, the interior indices \<open>1 \<le> i \<le> n - 2\<close>
  whose value is above the threshold and strictly above both neighbours, followed by the
  last index \<open>n - 1\<close> whenever the last value is above the threshold (no local-maximum
  test there); and \<open>detect_peaks [0.1, 0.9, 0.2, 0.3, 0.8] 0.7 = [1, 4]\<close>.
\<close>

theorem detect_peaks_characterisation:
  "detect_peaks vs t =
     filter (\<lambda>i. vs ! i > t \<and> vs ! i > vs ! (i - 1) \<and> vs ! i > vs ! (i + 1))
       [1 ..< length vs - 1]
     @ (if vs \<noteq> [] \<and> vs ! (length vs - 1) > t then [length vs - 1] else [])
   \<and> detect_peaks [1/10, 9/10, 2/10, 3/10, 8/10] (7/10) = [1, 4]"
proof
  show "detect_peaks vs t =
     filter (\<lambda>i. vs ! i > t \<and> vs ! i > vs ! (i - 1) \<and> vs ! i > vs ! (i + 1))
       [1 ..< length vs - 1]
     @ (if vs \<noteq> [] \<and> vs ! (length vs - 1) > t then [length vs - 1] else [])"
    by (rule detect_peaks_filter)
  show "detect_peaks [1/10, 9/10, 2/10, 3/10, 8/10] (7/10) = [1, 4]"
    by (simp add: detect_peaks_filter upt_conv_Cons)
qed

theorem detect_peaks_witness:
  "detect_peaks [1/10, 9/10, 2/10, 3/10, 9/10, 8/10] (7/10) = [1, 4, 5]"
  using detect_peaks_characterisation [of "[1/10, 9/10, 2/10, 3/10, 9/10, 8/10]" "7/10"]
  by (simp add: upt_conv_Cons)

section \<open>Properties of the Signal Detector\<close>

lemma starts_with_append: "starts_with s k \<longleftrightarrow> (\<exists>suf. s = k @ suf)"
  unfolding starts_with_def
  by (metis append_eq_conv_conj append_take_drop_id)

lemma re_match_keyword:
  assumes "k \<noteq> []" "is_word R (hd k)"
  shows "re_match R [WordB, Lit k] p s \<longleftrightarrow> (\<not> word_opt R p \<and> starts_with s k)"
proof (cases "starts_with s k")
  case True
  then obtain suf where "s = k @ suf" by (auto simp: starts_with_append)
  with assms have "word_opt R (next_char s)"
    by (cases k) (auto simp: word_opt_def next_char_def)
  with True show ?thesis by simp
next
  case False
  then show ?thesis by simp
qed

lemma re_search_from_keyword:
  assumes "k \<noteq> []" "is_word R (hd k)"
  shows "re_search_from R [WordB, Lit k] p s \<longleftrightarrow>
     (\<exists>pre suf. s = pre @ k @ suf \<and> \<not> word_opt R (if pre = [] then p else Some (last pre)))"
proof (induction s arbitrary: p)
  case Nil
  with assms show ?case
    by (simp add: re_match_keyword starts_with_def del: re_match.simps)
next
  case (Cons x xs)
  have "(\<exists>pre suf. x # xs = pre @ k @ suf \<and> \<not> word_opt R (if pre = [] then p else Some (last pre)))
     \<longleftrightarrow> (\<not> word_opt R p \<and> starts_with (x # xs) k)
        \<or> (\<exists>pre suf. xs = pre @ k @ suf \<and> \<not> word_opt R (if pre = [] then Some x else Some (last pre)))"
    (is "?L \<longleftrightarrow> ?A \<or> ?B")
  proof
    assume ?L
    then obtain pre suf where e: "x # xs = pre @ k @ suf"
      and w: "\<not> word_opt R (if pre = [] then p else Some (last pre))" by blast
    show "?A \<or> ?B"
    proof (cases pre)
      case Nil
      with e w show ?thesis by (auto simp: starts_with_append)
    next
      case (Cons y ys)
      with e have "xs = ys @ k @ suf" "y = x" by auto
      moreover from w Cons have "\<not> word_opt R (if ys = [] then Some x else Some (last ys))"
        using \<open>y = x\<close> by (auto split: if_splits)
      ultimately show ?thesis by blast
    qed
  next
    assume "?A \<or> ?B"
    then show ?L
    proof
      assume ?A
      then obtain suf where "x # xs = [] @ k @ suf" by (auto simp: starts_with_append)
      with \<open>?A\<close> show ?L by (metis (full_types))
    next
      assume ?B
      then obtain pre suf where e: "xs = pre @ k @ suf"
        and w: "\<not> word_opt R (if pre = [] then Some x else Some (last pre))" by blast
      have "x # xs = (x # pre) @ k @ suf" using e by simp
      moreover have "\<not> word_opt R (if x # pre = [] then p else Some (last (x # pre)))"
        using w by (auto split: if_splits)
      ultimately show ?L by blast
    qed
  qed
  with Cons.IH [of "Some x"] assms show ?case
    by (simp add: re_match_keyword del: re_match.simps)
qed

lemma keyword_matches_iff:
  assumes "k \<noteq> []" "is_word R (hd k)"
  shows "keyword_matches R k s \<longleftrightarrow>
     (\<exists>pre suf. s = pre @ k @ suf \<and> (pre = [] \<or> \<not> is_word R (last pre)))"
  unfolding keyword_matches_def re_search_def re_search_from_keyword [OF assms]
  by (auto simp: word_opt_def split: if_splits)

lemma keywords_start_with_letter:
  assumes "(e, ks) \<in> set EMOTION_KEYWORDS" "k \<in> set ks"
  shows "k \<noteq> [] \<and> is_word R (hd k)"
  using assms by (auto simp: EMOTION_KEYWORDS_def str_def is_word_def)

lemma re_search_from_word_starts:
  assumes "k \<noteq> []" "is_word R (hd k)"
  shows "re_search_from R [WordB, Lit k] p s \<longleftrightarrow>
     list_ex (\<lambda>w. starts_with w k) (word_starts R p s)"
proof (induction s arbitrary: p)
  case Nil
  with assms show ?case
    by (simp add: re_match_keyword starts_with_def del: re_match.simps)
next
  case (Cons x xs)
  have "starts_with (x # xs) k \<Longrightarrow> is_word R x"
    using assms by (cases k) (auto simp: starts_with_def)
  with Cons.IH [of "Some x"] assms show ?case
    by (auto simp add: re_match_keyword simp del: re_match.simps)
qed

lemma keyword_scan_word_starts:
  "keyword_scan R (e # es) t =
     (if list_ex (\<lambda>k. list_ex (\<lambda>w. starts_with w k) (word_starts R None t))
           (dict_get EMOTION_KEYWORDS e [])
      then Some e else keyword_scan R es t)"
proof -
  have "keyword_matches R k t = list_ex (\<lambda>w. starts_with w k) (word_starts R None t)"
    if "k \<in> set (dict_get EMOTION_KEYWORDS e [])" for k
  proof -
    from that obtain ks where "(e, ks) \<in> set EMOTION_KEYWORDS" "k \<in> set ks"
      by (cases "map_of EMOTION_KEYWORDS e") (auto simp: dict_get_def dest: map_of_SomeD)
    then have "k \<noteq> [] \<and> is_word R (hd k)" by (rule keywords_start_with_letter)
    then show ?thesis
      by (simp add: keyword_matches_def re_search_def re_search_from_word_starts)
  qed
  then have "list_ex (\<lambda>k. keyword_matches R k t) (dict_get EMOTION_KEYWORDS e [])
     = list_ex (\<lambda>k. list_ex (\<lambda>w. starts_with w k) (word_starts R None t))
         (dict_get EMOTION_KEYWORDS e [])"
    by (simp add: list_ex_iff)
  then show ?thesis by simp
qed

lemmas eval_defs = str_def ascii_runtime_def ascii_lower_def is_word_def word_opt_def
  starts_with_def next_char_def prev_after_def is_space_def dict_get_def

lemma yeah_scan:
  "keyword_scan ascii_runtime emotion_priority (str ''yeah great job... not.'') = None"
  by (simp add: keyword_scan_word_starts emotion_priority_def EMOTION_KEYWORDS_def eval_defs
      del: keyword_scan.simps(2))

text \<open>
  C2, as stated, fails: the pattern has a word boundary in front of the keyword only, so the
  keyword \<^verbatim>\<open>mad\<close> of anger matches the text \<^verbatim>\<open>madness\<close>, in which it does not occur as a
  whole word, and the Signal Detector reports anger.
\<close>

theorem keyword_super_word_counterexample:
  "str ''mad'' \<in> set (dict_get EMOTION_KEYWORDS (str ''anger'') [])
   \<and> keyword_matches ascii_runtime (str ''mad'') (str_lower ascii_runtime (str ''madness''))
   \<and> \<not> keyword_matches_whole_word ascii_runtime (str ''mad'')
         (str_lower ascii_runtime (str ''madness''))
   \<and> has_emotion_signal ascii_runtime (str ''madness'') = (True, str ''anger'')"
proof -
  have l: "str_lower ascii_runtime (str ''madness'') = str ''madness''"
    by (simp add: eval_defs)
  have 1: "str ''mad'' \<in> set (dict_get EMOTION_KEYWORDS (str ''anger'') [])"
    by (simp add: EMOTION_KEYWORDS_def dict_get_def str_def)
  have 2: "keyword_matches ascii_runtime (str ''mad'') (str ''madness'')"
    by (simp add: keyword_matches_def re_search_def eval_defs)
  have 3: "\<not> keyword_matches_whole_word ascii_runtime (str ''mad'') (str ''madness'')"
    by (simp add: keyword_matches_whole_word_def re_search_def eval_defs)
  have 4: "keyword_scan ascii_runtime emotion_priority (str ''madness'') = Some (str ''anger'')"
    by (simp add: keyword_scan_word_starts emotion_priority_def EMOTION_KEYWORDS_def eval_defs
        del: keyword_scan.simps(2))
  from 1 2 3 4 show ?thesis by (simp add: l has_emotion_signal_def)
qed

text \<open>
  C2, amended. A keyword of the tables matches exactly when one of its occurrences in the
  lower-cased text starts at a word boundary, that is at the start of the text or after a
  character that is not a word character. What follows the occurrence is not looked at:
  a word that extends the keyword to the right matches, one that extends it to the left
  only does not.
\<close>

theorem keyword_matches_leading_boundary:
  assumes "(e, ks) \<in> set EMOTION_KEYWORDS" and "k \<in> set ks"
  shows "keyword_matches R k s \<longleftrightarrow>
     (\<exists>pre suf. s = pre @ k @ suf \<and> (pre = [] \<or> \<not> is_word R (last pre)))"
proof -
  from assms have "k \<noteq> [] \<and> is_word R (hd k)" by (rule keywords_start_with_letter)
  then show ?thesis by (simp add: keyword_matches_iff)
qed

theorem keyword_matches_leading_boundary_witness:
  "(str ''anger'', map str [''angry'', ''mad'', ''furious'', ''irritated'', ''annoyed'',
        ''pissed'', ''hate'', ''ridiculous'', ''outrageous'', ''dislike'', ''frustrat''])
     \<in> set EMOTION_KEYWORDS
   \<and> str ''mad'' \<in> set (map str [''angry'', ''mad'', ''furious'', ''irritated'', ''annoyed'',
        ''pissed'', ''hate'', ''ridiculous'', ''outrageous'', ''dislike'', ''frustrat''])
   \<and> \<not> keyword_matches ascii_runtime (str ''mad'') (str ''nomad'')
   \<and> \<not> (\<exists>pre suf. str ''nomad'' = pre @ str ''mad'' @ suf
          \<and> (pre = [] \<or> \<not> is_word ascii_runtime (last pre)))"
proof -
  have 1: "(str ''anger'', map str [''angry'', ''mad'', ''furious'', ''irritated'', ''annoyed'',
        ''pissed'', ''hate'', ''ridiculous'', ''outrageous'', ''dislike'', ''frustrat''])
     \<in> set EMOTION_KEYWORDS"
    by (simp add: EMOTION_KEYWORDS_def)
  have 2: "str ''mad'' \<in> set (map str [''angry'', ''mad'', ''furious'', ''irritated'',
        ''annoyed'', ''pissed'', ''hate'', ''ridiculous'', ''outrageous'', ''dislike'',
        ''frustrat''])"
    by simp
  have 3: "\<not> keyword_matches ascii_runtime (str ''mad'') (str ''nomad'')"
    by (simp add: keyword_matches_def re_search_def eval_defs)
  from keyword_matches_leading_boundary [OF 1 2, of ascii_runtime "str ''nomad''"] 1 2 3
  show ?thesis by blast
qed

section \<open>Properties of the Emotion Scorer\<close>

lemma contains_single: "contains [c] t \<longleftrightarrow> c \<in> set t"
  by (induction t) (auto simp: starts_with_def)

lemma emoji_scan_table:
  "\<forall>(e, ems) \<in> set tbl. \<forall>em \<in> set ems. \<not> contains em t \<Longrightarrow> emoji_scan tbl t = None"
  by (induction tbl t rule: emoji_scan.induct) (auto simp: list_ex_iff)

lemma emoji_not_ascii:
  assumes "(e, ems) \<in> set EMOTION_EMOJIS" "em \<in> set ems"
  shows "\<exists>c. em = [c] \<and> 128 \<le> c"
  using assms by (auto simp: EMOTION_EMOJIS_def)

lemma emoji_scan_ascii:
  assumes "list_all (\<lambda>c. c < 128) t"
  shows "emoji_scan EMOTION_EMOJIS t = None"
proof (rule emoji_scan_table, clarify)
  fix e ems em
  assume "(e, ems) \<in> set EMOTION_EMOJIS" "em \<in> set ems" "contains em t"
  then obtain c where "em = [c]" "128 \<le> c" "c \<in> set t"
    using emoji_not_ascii contains_single by blast
  with assms show False by (auto simp: list_all_iff)
qed

lemma yeah_emoji: "emoji_scan EMOTION_EMOJIS (str ''Yeah great job... not.'') = None"
  by (rule emoji_scan_ascii) (simp add: str_def)

lemma yeah_lower:
  "str_lower ascii_runtime (str ''Yeah great job... not.'') = str ''yeah great job... not.''"
  by (simp add: eval_defs)

lemma yeah_sarcasm:
  "list_ex (\<lambda>pattern. re_search ascii_runtime pattern (str ''yeah great job... not.''))
     sarcasm_patterns"
  by (simp add: sarcasm_patterns_def re_search_def eval_defs)

lemma sarcasm_distribution_eq:
  "sarcasm_distribution =
     [(str ''joy'', 5 / 100), (str ''sadness'', 5 / 100), (str ''anger'', 5 / 10),
      (str ''fear'', 5 / 100), (str ''surprise'', 5 / 100), (str ''stress'', 5 / 100),
      (str ''tension'', 5 / 100), (str ''disgust'', 2 / 10), (str ''anticipation'', 5 / 100),
      (str ''neutral'', 5 / 100)]"
  by (simp add: sarcasm_distribution_def EMOTIONS_def str_def)



lemma signal_labels_not_emotions:
  "str ''emphasis_detected'' \<notin> set EMOTIONS" "str ''no_signal'' \<notin> set EMOTIONS"
  by (simp_all add: EMOTIONS_def str_def)

lemma no_label_signal:
  assumes "keyword_scan R emotion_priority (str_lower R text) = None"
    and "emoji_scan EMOTION_EMOJIS text = None"
  shows "snd (has_emotion_signal R text) \<notin> set EMOTIONS"
  using assms signal_labels_not_emotions by (simp add: has_emotion_signal_def)

lemma classify_sarcasm:
  assumes "keyword_scan R emotion_priority (str_lower R text) = None"
    and "emoji_scan EMOTION_EMOJIS text = None"
    and "list_ex (\<lambda>pattern. re_search R pattern (str_lower R text)) sarcasm_patterns"
  shows "classify_emotion R generate text chat_history = sarcasm_distribution"
proof -
  obtain b l where bl: "has_emotion_signal R text = (b, l)"
    by (cases "has_emotion_signal R text")
  with no_label_signal [OF assms(1,2)] have "l \<notin> set EMOTIONS" by simp
  with bl assms(3) show ?thesis by (simp add: classify_emotion_def)
qed



text \<open>
  C1. On the sarcasm path the values returned by \<open>classify_emotion\<close> add up to 1.1: for
  the text \<^verbatim>\<open>Yeah great job... not.\<close> the sum is outside \<open>1.0 \<plusminus> 0.01\<close>, whatever the
  classifier and the history are.
\<close>

theorem sarcasm_sum_failing_input:
  "sum_list (map snd
     (classify_emotion ascii_runtime generate (str ''Yeah great job... not.'') chat_history))
   = 11 / 10"
proof -
  have 1: "keyword_scan ascii_runtime emotion_priority
      (str_lower ascii_runtime (str ''Yeah great job... not.'')) = None"
    by (simp only: yeah_lower yeah_scan)
  have 3: "list_ex (\<lambda>pattern. re_search ascii_runtime pattern
        (str_lower ascii_runtime (str ''Yeah great job... not.''))) sarcasm_patterns"
    by (simp only: yeah_lower yeah_sarcasm)
  show ?thesis
    by (simp add: classify_sarcasm [OF 1 yeah_emoji 3] sarcasm_distribution_eq)
qed

section \<open>The keyword path of the Emotion Scorer\<close>

lemma EMOTIONS_codes:
  "EMOTIONS = [[106, 111, 121], [115, 97, 100, 110, 101, 115, 115], [97, 110, 103, 101, 114],
     [102, 101, 97, 114], [115, 117, 114, 112, 114, 105, 115, 101],
     [115, 116, 114, 101, 115, 115], [116, 101, 110, 115, 105, 111, 110],
     [100, 105, 115, 103, 117, 115, 116],
     [97, 110, 116, 105, 99, 105, 112, 97, 116, 105, 111, 110],
     [110, 101, 117, 116, 114, 97, 108]]"
  by (simp add: EMOTIONS_def str_def)
























section \<open>The classifier path of the Emotion Scorer\<close>

lemma max_from_mem: "max_from key b xs \<in> set (b # xs)"
  by (induction xs arbitrary: b) auto

lemma max_from_best: "key b \<le> key (max_from key b xs)"
proof (induction xs arbitrary: b)
  case Nil
  show ?case by simp
next
  case (Cons a xs)
  have "key b \<le> key (if key b < key a then a else b)" by (simp add: less_imp_le)
  also have "\<dots> \<le> key (max_from key (if key b < key a then a else b) xs)"
    by (rule Cons.IH)
  finally show ?case by simp
qed

lemma max_from_ge: "x \<in> set (b # xs) \<Longrightarrow> key x \<le> key (max_from key b xs)"
proof (induction xs arbitrary: b)
  case Nil
  then show ?case by simp
next
  case (Cons a xs)
  let ?b = "if key b < key a then a else b"
  from Cons.prems consider "x = b" | "x = a" | "x \<in> set xs" by auto
  then show ?case
  proof cases
    case 1
    then have "key x \<le> key ?b" by (simp add: less_imp_le)
    also have "\<dots> \<le> key (max_from key ?b xs)" by (rule max_from_best)
    finally show ?thesis by simp
  next
    case 2
    then have "key x \<le> key ?b" by (simp add: not_less)
    also have "\<dots> \<le> key (max_from key ?b xs)" by (rule max_from_best)
    finally show ?thesis by simp
  next
    case 3
    then have "key x \<le> key (max_from key ?b xs)" by (intro Cons.IH) simp
    then show ?thesis by simp
  qed
qed

lemma py_max_Some:
  assumes "xs \<noteq> []"
  shows "\<exists>m. py_max key xs = Some m \<and> m \<in> set xs \<and> (\<forall>x \<in> set xs. key x \<le> key m)"
proof (cases xs)
  case Nil
  with assms show ?thesis by simp
next
  case (Cons b r)
  have 1: "py_max key (b # r) = Some (max_from key b r)" by (simp add: py_max_def)
  have 2: "max_from key b r \<in> set (b # r)" by (rule max_from_mem)
  have 3: "\<forall>x \<in> set (b # r). key x \<le> key (max_from key b r)"
    by (intro ballI max_from_ge)
  from 1 2 3 show ?thesis unfolding Cons by (intro exI conjI)
qed

lemma dict_set_keys:
  "k \<in> fst ` set d \<Longrightarrow> map fst (dict_set d k v) = map fst d"
proof (induction d)
  case Nil
  then show ?case by simp
next
  case (Cons p d)
  obtain k' v' where p: "p = (k', v')" by (cases p)
  show ?case
  proof (cases "k' = k")
    case True
    with p show ?thesis by simp
  next
    case False
    with Cons.prems p have "k \<in> fst ` set d" by auto
    with Cons.IH False p show ?thesis by simp
  qed
qed




lemma EMOTIONS_distinct: "distinct EMOTIONS"
  by (simp add: EMOTIONS_codes)















section \<open>Properties of the conversation store\<close>

text \<open>
  C9. For an existing chat without messages the summary has confidence 0, dominant emotion
  neutral, the score 0.1 for each of the ten labels and, when the text is asked for, the
  text \<^verbatim>\<open>No messages yet.\<close>; nothing is cached.
\<close>

theorem empty_chat_summary:
  assumes "chats S chat_id = Some c" and "messages c = []"
  shows "get_emotion_summary S chat_id include_summary_text now =
     (S, Inr (Some
        \<lparr>sum_chatId = chat_id, sum_id = chat_id, sum_dominant_emotion = str ''neutral'',
         scores = [(str ''joy'', 1 / 10), (str ''sadness'', 1 / 10), (str ''anger'', 1 / 10),
                   (str ''fear'', 1 / 10), (str ''surprise'', 1 / 10), (str ''stress'', 1 / 10),
                   (str ''tension'', 1 / 10), (str ''disgust'', 1 / 10),
                   (str ''anticipation'', 1 / 10), (str ''neutral'', 1 / 10)],
         confidence = 0,
         summary_text = (if include_summary_text then Some (str ''No messages yet.'') else None),
         generatedAt = now\<rparr>))"
  using assms by (simp add: get_emotion_summary_def EmotionType_def)

theorem empty_chat_summary_witness:
  "chats (fst (create_chat empty_storage (str ''jdoe'') None (str ''abc12345'') (str ''t0'')))
      (str ''abc12345'')
     = Some \<lparr>chat_metadata =
               \<lparr>chatId = str ''abc12345'', meta_id = str ''abc12345'', userId = str ''jdoe'',
                title = str ''New Chat'', createdAt = str ''t0'', lastUpdatedAt = str ''t0'',
                snippet = str ''New chat'', dominant_emotion = str ''neutral'',
                messageCount = 0\<rparr>,
             messages = [],
             emotionTimeline = map (\<lambda>emotion. (emotion, [])) EmotionType\<rparr>
   \<and> snd (get_emotion_summary
        (fst (create_chat empty_storage (str ''jdoe'') None (str ''abc12345'') (str ''t0'')))
        (str ''abc12345'') True (str ''t1'')) =
      Inr (Some
        \<lparr>sum_chatId = str ''abc12345'', sum_id = str ''abc12345'',
         sum_dominant_emotion = str ''neutral'',
         scores = [(str ''joy'', 1 / 10), (str ''sadness'', 1 / 10), (str ''anger'', 1 / 10),
                   (str ''fear'', 1 / 10), (str ''surprise'', 1 / 10), (str ''stress'', 1 / 10),
                   (str ''tension'', 1 / 10), (str ''disgust'', 1 / 10),
                   (str ''anticipation'', 1 / 10), (str ''neutral'', 1 / 10)],
         confidence = 0,
         summary_text = Some (str ''No messages yet.''),
         generatedAt = str ''t1''\<rparr>)"
proof -
  let ?S = "fst (create_chat empty_storage (str ''jdoe'') None (str ''abc12345'') (str ''t0''))"
  let ?c = "\<lparr>chat_metadata =
               \<lparr>chatId = str ''abc12345'', meta_id = str ''abc12345'', userId = str ''jdoe'',
                title = str ''New Chat'', createdAt = str ''t0'', lastUpdatedAt = str ''t0'',
                snippet = str ''New chat'', dominant_emotion = str ''neutral'',
                messageCount = 0\<rparr>,
             messages = [],
             emotionTimeline = map (\<lambda>emotion. (emotion, [] :: rat list)) EmotionType\<rparr>"
  have 1: "chats ?S (str ''abc12345'') = Some ?c"
    by (simp add: create_chat_def)
  have 2: "messages ?c = []" by simp
  from empty_chat_summary [OF 1 2, of True "str ''t1''"] 1 show ?thesis by simp
qed

lemma EmotionType_distinct: "distinct EmotionType"
  using EMOTIONS_distinct by (simp add: EmotionType_def EMOTIONS_def)

lemma dict_get_dict_set:
  "dict_get (dict_set d k v) k' z = (if k' = k then v else dict_get d k' z)"
  by (induction d) (auto simp: dict_get_def)

lemma map_of_keys: "map_of d k = None \<longleftrightarrow> k \<notin> set (map fst d)"
  by (simp add: map_of_eq_None_iff)

lemma timeline_append_ok:
  assumes "set (map fst ps) \<subseteq> set (map fst tml)"
  shows "\<exists>tml'. timeline_append tml ps = (tml', None) \<and> map fst tml' = map fst tml
           \<and> (\<forall>e. length (dict_get tml' e []) =
                  length (dict_get tml e []) + count_list (map fst ps) e)"
  using assms
proof (induction ps arbitrary: tml)
  case Nil
  then show ?case by simp
next
  case (Cons p ps)
  obtain emotion prob where p: "p = (emotion, prob)" by (cases p)
  from Cons.prems p have "emotion \<in> set (map fst tml)" by simp
  then obtain l where l: "map_of tml emotion = Some l"
    using map_of_keys [of tml emotion] by (cases "map_of tml emotion") auto
  let ?t = "dict_set tml emotion (l @ [prob])"
  from \<open>emotion \<in> set (map fst tml)\<close> have "emotion \<in> fst ` set tml" by (simp only: set_map)
  then have k: "map fst ?t = map fst tml" by (rule dict_set_keys)
  with Cons.prems have "set (map fst ps) \<subseteq> set (map fst ?t)" by simp
  from Cons.IH [OF this] obtain tml' where
    t: "timeline_append ?t ps = (tml', None)" "map fst tml' = map fst ?t"
       "\<forall>e. length (dict_get tml' e []) = length (dict_get ?t e []) + count_list (map fst ps) e"
    by blast
  have g: "dict_get tml emotion [] = l" using l by (simp add: dict_get_def)
  have "\<forall>e. length (dict_get tml' e []) =
      length (dict_get tml e []) + count_list (map fst (p # ps)) e"
    using t(3) g by (simp add: p dict_get_dict_set)
  with t(1,2) k l show ?case by (simp add: p)
qed

lemma create_chat_inv:
  assumes "messages c = []" and "emotionTimeline c = map (\<lambda>emotion. (emotion, [])) EmotionType"
    and "messageCount (chat_metadata c) = 0"
  shows "chat_inv c"
proof -
  have "dict_get (map (\<lambda>emotion. (emotion, [] :: rat list)) EmotionType) e [] = []" for e
    by (cases "map_of (map (\<lambda>emotion. (emotion, [] :: rat list)) EmotionType) e")
      (auto simp: dict_get_def dest: map_of_SomeD)
  with assms show ?thesis by (simp add: chat_inv_def comp_def)
qed

lemma update_dominant_emotion_same:
  assumes "update_dominant_emotion c = Some c'"
  shows "messages c' = messages c" "emotionTimeline c' = emotionTimeline c"
    "messageCount (chat_metadata c') = messageCount (chat_metadata c)"
  using assms
  by (auto simp: update_dominant_emotion_def Let_def split: if_splits option.splits)

lemma count_list_distinct: "distinct xs \<Longrightarrow> x \<in> set xs \<Longrightarrow> count_list xs x = 1"
  by (induction xs) auto

lemma add_message_chat:
  assumes c0: "chats S chat_id = Some c0" and inv: "chat_inv c0"
    and good: "distinct (map fst probs)" "set (map fst probs) = set EmotionType"
  shows "\<exists>c1. chat_inv c1
           \<and> chats (fst (add_message S chat_id speaker txt probs dominant entropy conf now))
               = (chats S)(chat_id \<mapsto> c1)"
proof -
  let ?msg = "\<lparr>msg_id = length (messages c0) + 1, msg_speaker = speaker, msg_text = txt,
     msg_ts = now, msg_probs = probs, msg_dominant = dominant, msg_entropy = entropy,
     msg_confidence = conf\<rparr>"
  let ?cm = "c0\<lparr>messages := messages c0 @ [?msg],
     chat_metadata := (chat_metadata c0)\<lparr>lastUpdatedAt := now,
        messageCount := Suc (length (messages c0))\<rparr>\<rparr>"
  from inv have keys: "map fst (emotionTimeline c0) = EmotionType"
    and lens: "\<forall>e \<in> set EmotionType.
      length (dict_get (emotionTimeline c0) e []) = length (messages c0)"
    by (simp_all add: chat_inv_def)
  from good(2) keys have "set (map fst probs) \<subseteq> set (map fst (emotionTimeline c0))" by simp
  from timeline_append_ok [OF this] obtain tml' where
    t: "timeline_append (emotionTimeline c0) probs = (tml', None)"
       "map fst tml' = map fst (emotionTimeline c0)"
       "\<forall>e. length (dict_get tml' e []) =
          length (dict_get (emotionTimeline c0) e []) + count_list (map fst probs) e"
    by blast
  have len: "length (dict_get tml' e []) = Suc (length (messages c0))" if "e \<in> set EmotionType" for e
  proof -
    from that good have "count_list (map fst probs) e = 1" by (intro count_list_distinct) simp_all
    with t(3) lens that show ?thesis by simp
  qed
  have inv_new: "chat_inv c1"
    if "messages c1 = messages c0 @ [?msg]" "emotionTimeline c1 = tml'"
       "messageCount (chat_metadata c1) = Suc (length (messages c0))" for c1
    using that t(2) keys len by (simp add: chat_inv_def)
  let ?ct = "?cm\<lparr>emotionTimeline := tml'\<rparr>"
  show ?thesis
  proof (cases "update_dominant_emotion ?ct")
    case None
    have "chat_inv ?ct" by (rule inv_new) simp_all
    moreover have "chats (fst (add_message S chat_id speaker txt probs dominant entropy conf now))
        = (chats S)(chat_id \<mapsto> ?ct)"
      using c0 t(1) None by (simp add: add_message_def Let_def)
    ultimately show ?thesis by blast
  next
    case (Some c2)
    let ?c3 = "if speaker = str ''user'' \<and> length (messages c0) + 1 = 1
       then c2\<lparr>chat_metadata := (chat_metadata c2)
              \<lparr>snippet := (if length txt > 50 then take 50 txt @ str ''...'' else txt),
               title := generate_title txt\<rparr>\<rparr>
       else c2"
    from update_dominant_emotion_same [OF Some]
    have "chat_inv ?c3" by (intro inv_new) simp_all
    moreover have "chats (fst (add_message S chat_id speaker txt probs dominant entropy conf now))
        = (chats S)(chat_id \<mapsto> ?c3)"
      using c0 t(1) Some by (simp add: add_message_def Let_def)
    ultimately show ?thesis by blast
  qed
qed

lemma add_message_missing:
  assumes "chats S chat_id = None"
  shows "fst (add_message S chat_id speaker txt probs dominant entropy conf now) = S"
  using assms by (simp add: add_message_def)

lemma reachable_inv: "reachable S \<Longrightarrow> store_inv S"
proof (induction rule: reachable.induct)
  case initial
  show ?case by (simp add: store_inv_def empty_storage_def)
next
  case (created S user_id initial_message chat_id now)
  then show ?case
    by (auto simp: store_inv_def create_chat_def Let_def intro!: create_chat_inv)
next
  case (appended S probs chat_id speaker body dominant entropy conf now)
  show ?case
  proof (cases "chats S chat_id")
    case None
    with appended.IH show ?thesis by (simp add: add_message_missing)
  next
    case (Some c0)
    with appended.IH have "chat_inv c0" by (simp add: store_inv_def)
    from add_message_chat [OF Some this appended.hyps(2,3),
        of speaker body dominant entropy conf now]
    obtain c1 where c1: "chat_inv c1"
      "chats (fst (add_message S chat_id speaker body probs dominant entropy conf now))
         = (chats S)(chat_id \<mapsto> c1)"
      by blast
    from appended.IH c1(1) show ?thesis
      unfolding store_inv_def c1(2) by (auto split: if_splits)
  qed
next
  case (retitled S chat_id new_title now)
  then show ?case
    by (auto simp: store_inv_def update_chat_title_def chat_inv_def split: option.splits)
next
  case (deleted S chat_id user_id)
  then show ?case
    by (auto simp: store_inv_def delete_chat_def Let_def split: option.splits if_splits)
next
  case (summarised S chat_id include_summary_text now)
  then show ?case
    by (auto simp: store_inv_def get_emotion_summary_def Let_def split: option.splits if_splits)
qed

lemmas store_eval = create_chat_def empty_storage_def add_message_def
  update_dominant_emotion_def py_max_def dict_get_def generate_title_def is_space_def
  EmotionType_def str_def sample_created_def sample_chat_id_def

lemma sample_reachable: "reachable (sample_appended [str ''joy''] sample_created)"
proof -
  have 1: "distinct (map fst (map (\<lambda>e. (e, 1 / 10 :: rat)) EmotionType))"
    by (simp add: o_def EmotionType_distinct)
  have 2: "set (map fst (map (\<lambda>e. (e, 1 / 10 :: rat)) EmotionType)) = set EmotionType"
    by (simp add: o_def)
  have "reachable sample_created"
    unfolding sample_created_def by (rule reachable.created [OF reachable.initial])
  from reachable.appended [OF this 1 2] show ?thesis by (simp only: sample_appended.simps)
qed

lemma sample_one:
  "map_option (\<lambda>c. length (messages c))
     (chats (sample_appended [str ''joy''] sample_created) sample_chat_id) = Some 1"
  by (simp add: store_eval)

text \<open>
  C10. In every state of the store reached from the empty store by \<open>create_chat\<close>,
  \<open>add_message\<close> with probabilities over exactly the ten labels, \<open>update_chat_title\<close>,
  \<open>delete_chat\<close> and \<open>get_emotion_summary\<close>, every chat has the ten labels as the keys of
  its timeline, each of the ten lists as long as the message list, and the message count
  equal to that length.
\<close>

theorem timeline_lengths:
  assumes "reachable S" and "chats S chat_id = Some c"
  shows "map fst (emotionTimeline c) = EmotionType
         \<and> (\<forall>e \<in> set EmotionType.
               length (dict_get (emotionTimeline c) e []) = length (messages c))
         \<and> messageCount (chat_metadata c) = length (messages c)"
proof -
  from assms(1) have "store_inv S" by (rule reachable_inv)
  with assms(2) have "chat_inv c" by (simp add: store_inv_def)
  then show ?thesis by (simp add: chat_inv_def)
qed

theorem timeline_lengths_witness:
  "reachable (sample_appended [str ''joy''] sample_created)
   \<and> (\<exists>c. chats (sample_appended [str ''joy''] sample_created) sample_chat_id = Some c
         \<and> length (messages c) = 1
         \<and> map fst (emotionTimeline c) = EmotionType
         \<and> (\<forall>e \<in> set EmotionType.
               length (dict_get (emotionTimeline c) e []) = length (messages c))
         \<and> messageCount (chat_metadata c) = length (messages c))"
proof -
  from sample_one obtain c where
    c: "chats (sample_appended [str ''joy''] sample_created) sample_chat_id = Some c"
       "length (messages c) = 1"
    by (cases "chats (sample_appended [str ''joy''] sample_created) sample_chat_id") simp_all
  from timeline_lengths [OF sample_reachable c(1)] c sample_reachable show ?thesis by blast
qed

lemma sample_three:
  "map_option (\<lambda>c. (map msg_dominant (messages c), dominant_emotion (chat_metadata c)))
     (chats (sample_appended [str ''anger'', str ''anger'', str ''sadness''] sample_created)
        sample_chat_id)
   = Some ([str ''anger'', str ''anger'', str ''sadness''], str ''anger'')"
  by (simp add: store_eval)

lemma sample_tie:
  "map_option (\<lambda>c. (map msg_dominant (messages c), dominant_emotion (chat_metadata c)))
     (chats (sample_appended [str ''fear'', str ''anger''] sample_created) sample_chat_id)
   = Some ([str ''fear'', str ''anger''], str ''fear'')"
  by (simp add: store_eval)

lemma sample_tie_spec:
  "majority_by_order EMOTIONS [str ''fear'', str ''anger''] = Some (str ''anger'')"
  "majority_by_order emotion_priority [str ''fear'', str ''anger''] = Some (str ''anger'')"
  by (simp_all add: majority_by_order_def py_max_def EMOTIONS_def emotion_priority_def str_def)

lemma dict_set_keys_new:
  "map fst (dict_set d k v) = (if k \<in> fst ` set d then map fst d else map fst d @ [k])"
proof (induction d)
  case Nil
  show ?case by simp
next
  case (Cons p d)
  obtain k' v' where p: "p = (k', v')" by (cases p)
  show ?case unfolding p using Cons.IH by (cases "k' = k") auto
qed

lemma dict_set_key_set: "fst ` set (dict_set d k v) = insert k (fst ` set d)"
proof -
  have "set (map fst (dict_set d k v)) = insert k (set (map fst d))"
    unfolding dict_set_keys_new by (cases "k \<in> fst ` set d") auto
  then show ?thesis by (simp only: set_map)
qed

lemma count_dominants_keys:
  "map fst (count_dominants msgs acc)
     = map fst acc @ first_seen_from (fst ` set acc) (map msg_dominant msgs)"
proof (induction msgs arbitrary: acc)
  case Nil
  show ?case by simp
next
  case (Cons msg msgs)
  let ?d = "msg_dominant msg"
  let ?acc = "dict_set acc ?d (dict_get acc ?d 0 + 1)"
  have "map fst (count_dominants (msg # msgs) acc)
      = map fst ?acc @ first_seen_from (fst ` set ?acc) (map msg_dominant msgs)"
    using Cons.IH [of ?acc] by simp
  also have "\<dots> = map fst acc @ first_seen_from (fst ` set acc) (map msg_dominant (msg # msgs))"
  proof (cases "?d \<in> fst ` set acc")
    case True
    then have "insert ?d (fst ` set acc) = fst ` set acc" by blast
    with True show ?thesis by (simp add: dict_set_keys_new dict_set_key_set)
  next
    case False
    then show ?thesis by (simp add: dict_set_keys_new dict_set_key_set)
  qed
  finally show ?case .
qed

lemma count_dominants_get:
  "dict_get (count_dominants msgs acc) e 0
     = dict_get acc e 0 + count_list (map msg_dominant msgs) e"
  by (induction msgs arbitrary: acc) (simp_all add: dict_get_dict_set)

lemma set_first_seen_from: "set (first_seen_from seen xs) = set xs - seen"
  by (induction xs arbitrary: seen) auto

lemma max_from_first:
  assumes "\<forall>x \<in> set pre0. key x < key b" and "\<forall>x \<in> set post0. key x \<le> key b"
  shows "\<exists>pre post. pre0 @ b # post0 @ xs = pre @ max_from key b xs # post
           \<and> (\<forall>x \<in> set pre. key x < key (max_from key b xs))
           \<and> (\<forall>x \<in> set post. key x \<le> key (max_from key b xs))"
  using assms
proof (induction xs arbitrary: b pre0 post0)
  case Nil
  then show ?case by auto
next
  case (Cons a xs)
  show ?case
  proof (cases "key b < key a")
    case True
    have 1: "\<forall>x \<in> set (pre0 @ b # post0). key x < key a"
      using Cons.prems True by (auto intro: le_less_trans less_trans)
    have 2: "\<forall>x \<in> set ([] :: 'a list). key x \<le> key a" by simp
    from Cons.IH [OF 1 2] True show ?thesis by simp
  next
    case False
    then have "key a \<le> key b" by (simp add: not_less)
    with Cons.prems(2) have 2: "\<forall>x \<in> set (post0 @ [a]). key x \<le> key b" by auto
    from Cons.IH [OF Cons.prems(1) 2] False show ?thesis by simp
  qed
qed

lemma py_max_first:
  assumes "py_max key xs = Some m"
  shows "\<exists>pre post. xs = pre @ m # post \<and> (\<forall>x \<in> set pre. key x < key m)
           \<and> (\<forall>x \<in> set post. key x \<le> key m)"
proof (cases xs)
  case Nil
  with assms show ?thesis by (simp add: py_max_def)
next
  case (Cons b r)
  with assms have m: "m = max_from key b r" by (simp add: py_max_def)
  have "\<forall>x \<in> set ([] :: 'a list). key x < key b" "\<forall>x \<in> set ([] :: 'a list). key x \<le> key b"
    by simp_all
  from max_from_first [OF this, of r] show ?thesis unfolding Cons m by simp
qed

lemma update_dominant_first:
  assumes "messages c \<noteq> []"
  shows "\<exists>m pre post.
     update_dominant_emotion c
        = Some (c\<lparr>chat_metadata := (chat_metadata c)\<lparr>dominant_emotion := m\<rparr>\<rparr>)
     \<and> first_seen (map msg_dominant (messages c)) = pre @ m # post
     \<and> (\<forall>e \<in> set pre. count_list (map msg_dominant (messages c)) e
                         < count_list (map msg_dominant (messages c)) m)
     \<and> (\<forall>e. count_list (map msg_dominant (messages c)) e
              \<le> count_list (map msg_dominant (messages c)) m)"
proof -
  let ?ds = "map msg_dominant (messages c)"
  let ?counts = "count_dominants (messages c) []"
  have keys: "map fst ?counts = first_seen ?ds"
    using count_dominants_keys [of "messages c" "[]"] by (simp add: first_seen_def)
  have key: "(\<lambda>k. dict_get ?counts k 0) = (\<lambda>k. count_list ?ds k)"
    using count_dominants_get [of "messages c" "[]"] by (simp add: dict_get_def)
  have sk: "set (first_seen ?ds) = set ?ds"
    by (simp add: first_seen_def set_first_seen_from)
  from assms have "?ds \<noteq> []" by simp
  with sk have "first_seen ?ds \<noteq> []" by (metis set_empty)
  from py_max_Some [OF this, of "\<lambda>k. count_list ?ds k"] obtain m where
    m: "py_max (\<lambda>k. count_list ?ds k) (first_seen ?ds) = Some m"
       "\<forall>x \<in> set (first_seen ?ds). count_list ?ds x \<le> count_list ?ds m"
    by blast
  from py_max_first [OF m(1)] obtain pre post where
    pp: "first_seen ?ds = pre @ m # post" "\<forall>x \<in> set pre. count_list ?ds x < count_list ?ds m"
    by blast
  have all: "count_list ?ds e \<le> count_list ?ds m" for e
  proof (cases "e \<in> set ?ds")
    case True
    with sk m(2) show ?thesis by blast
  next
    case False
    then have "count_list ?ds e = 0" by (simp add: count_list_0_iff)
    then show ?thesis by simp
  qed
  have "update_dominant_emotion c
      = Some (c\<lparr>chat_metadata := (chat_metadata c)\<lparr>dominant_emotion := m\<rparr>\<rparr>)"
    using assms m(1) by (simp add: update_dominant_emotion_def Let_def keys key)
  with pp all show ?thesis by blast
qed

lemma add_message_dominant:
  assumes "add_message S chat_id speaker txt probs dominant entropy conf now = (S', None)"
  shows "\<exists>c0 c' m pre post. chats S chat_id = Some c0 \<and> chats S' chat_id = Some c'
       \<and> map msg_dominant (messages c') = map msg_dominant (messages c0) @ [dominant]
       \<and> dominant_emotion (chat_metadata c') = m
       \<and> first_seen (map msg_dominant (messages c0) @ [dominant]) = pre @ m # post
       \<and> (\<forall>e \<in> set pre. count_list (map msg_dominant (messages c0) @ [dominant]) e
                           < count_list (map msg_dominant (messages c0) @ [dominant]) m)
       \<and> (\<forall>e. count_list (map msg_dominant (messages c0) @ [dominant]) e
                \<le> count_list (map msg_dominant (messages c0) @ [dominant]) m)"
proof -
  from assms obtain c0 where c0: "chats S chat_id = Some c0"
    by (cases "chats S chat_id") (simp_all add: add_message_def)
  let ?msg = "\<lparr>msg_id = length (messages c0) + 1, msg_speaker = speaker, msg_text = txt,
     msg_ts = now, msg_probs = probs, msg_dominant = dominant, msg_entropy = entropy,
     msg_confidence = conf\<rparr>"
  let ?cm = "c0\<lparr>messages := messages c0 @ [?msg],
     chat_metadata := (chat_metadata c0)\<lparr>lastUpdatedAt := now,
        messageCount := Suc (length (messages c0))\<rparr>\<rparr>"
  obtain tml e where t: "timeline_append (emotionTimeline c0) probs = (tml, e)"
    by (cases "timeline_append (emotionTimeline c0) probs")
  have e: "e = None"
  proof (cases e)
    case None
    then show ?thesis .
  next
    case (Some x)
    with assms c0 t show ?thesis by (simp add: add_message_def Let_def)
  qed
  let ?ct = "?cm\<lparr>emotionTimeline := tml\<rparr>"
  let ?ds = "map msg_dominant (messages c0) @ [dominant]"
  have ds: "map msg_dominant (messages ?ct) = ?ds" by simp
  have "messages ?ct \<noteq> []" by simp
  from update_dominant_first [OF this] obtain m pre post where
    u: "update_dominant_emotion ?ct
          = Some (?ct\<lparr>chat_metadata := (chat_metadata ?ct)\<lparr>dominant_emotion := m\<rparr>\<rparr>)"
    and f: "first_seen ?ds = pre @ m # post"
    and l: "\<forall>e \<in> set pre. count_list ?ds e < count_list ?ds m"
    and a: "\<forall>e. count_list ?ds e \<le> count_list ?ds m"
    unfolding ds by blast
  let ?c2 = "?ct\<lparr>chat_metadata := (chat_metadata ?ct)\<lparr>dominant_emotion := m\<rparr>\<rparr>"
  let ?c3 = "if speaker = str ''user'' \<and> length (messages c0) + 1 = 1
       then ?c2\<lparr>chat_metadata := (chat_metadata ?c2)
              \<lparr>snippet := (if length txt > 50 then take 50 txt @ str ''...'' else txt),
               title := generate_title txt\<rparr>\<rparr>
       else ?c2"
  have "add_message S chat_id speaker txt probs dominant entropy conf now
      = (S\<lparr>chats := (chats S)(chat_id \<mapsto> ?c3)\<rparr>, None)"
    using c0 t e u by (simp add: add_message_def Let_def)
  with assms have S': "S' = S\<lparr>chats := (chats S)(chat_id \<mapsto> ?c3)\<rparr>" by simp
  have 1: "chats S' chat_id = Some ?c3" unfolding S' by simp
  have 2: "map msg_dominant (messages ?c3) = ?ds" by simp
  have 3: "dominant_emotion (chat_metadata ?c3) = m" by simp
  from c0 1 2 3 f l a show ?thesis by blast
qed

text \<open>
  C8. The fixed orders of the labels do not decide a tie: after messages with the dominant
  labels fear and anger the chat has the dominant label fear, the label counted first,
  where the order of \<open>EMOTIONS\<close> and the order of \<open>emotion_priority\<close> both put anger
  before fear.
\<close>

theorem dominant_tie_counterexample:
  "map_option (\<lambda>c. (map msg_dominant (messages c), dominant_emotion (chat_metadata c)))
     (chats (sample_appended [str ''fear'', str ''anger''] sample_created) sample_chat_id)
     = Some ([str ''fear'', str ''anger''], str ''fear'')
   \<and> majority_by_order EMOTIONS [str ''fear'', str ''anger''] = Some (str ''anger'')
   \<and> majority_by_order emotion_priority [str ''fear'', str ''anger''] = Some (str ''anger'')
   \<and> str ''fear'' \<noteq> str ''anger''"
  using sample_tie sample_tie_spec by (simp add: str_def)

text \<open>
  C8. After every call of \<open>add_message\<close> that returns, the dominant label of the chat is
  a label that is most frequent among the dominant labels of its messages, the new one
  included, and of the most frequent labels the one that occurred first: every label
  first seen before it is strictly less frequent.
\<close>

theorem dominant_after_append:
  assumes "add_message S chat_id speaker txt probs dominant entropy conf now = (S', None)"
  shows "\<exists>c0 c' pre post. chats S chat_id = Some c0 \<and> chats S' chat_id = Some c'
       \<and> map msg_dominant (messages c') = map msg_dominant (messages c0) @ [dominant]
       \<and> first_seen (map msg_dominant (messages c'))
            = pre @ dominant_emotion (chat_metadata c') # post
       \<and> (\<forall>e \<in> set pre. count_list (map msg_dominant (messages c')) e
              < count_list (map msg_dominant (messages c')) (dominant_emotion (chat_metadata c')))
       \<and> (\<forall>e. count_list (map msg_dominant (messages c')) e
              \<le> count_list (map msg_dominant (messages c')) (dominant_emotion (chat_metadata c')))"
proof -
  from add_message_dominant [OF assms] obtain c0 c' m pre post where
    h: "chats S chat_id = Some c0" "chats S' chat_id = Some c'"
       "map msg_dominant (messages c') = map msg_dominant (messages c0) @ [dominant]"
       "dominant_emotion (chat_metadata c') = m"
       "first_seen (map msg_dominant (messages c0) @ [dominant]) = pre @ m # post"
       "\<forall>e \<in> set pre. count_list (map msg_dominant (messages c0) @ [dominant]) e
                           < count_list (map msg_dominant (messages c0) @ [dominant]) m"
       "\<forall>e. count_list (map msg_dominant (messages c0) @ [dominant]) e
                \<le> count_list (map msg_dominant (messages c0) @ [dominant]) m"
    by blast
  show ?thesis
    apply (rule exI [of _ c0], rule exI [of _ c'], rule exI [of _ pre], rule exI [of _ post])
    unfolding h(3) h(4) using h(1,2,5,6,7) by simp
qed

theorem dominant_after_append_witness:
  "add_message (sample_appended [str ''anger'', str ''anger''] sample_created) sample_chat_id
      (str ''user'') (str ''hello'') (map (\<lambda>e. (e, 1 / 10)) EmotionType) (str ''sadness'') 1
      (str ''low'') (str ''t1'')
     = (sample_appended [str ''anger'', str ''anger'', str ''sadness''] sample_created, None)
   \<and> (\<exists>c'. chats (sample_appended [str ''anger'', str ''anger'', str ''sadness'']
                    sample_created) sample_chat_id = Some c'
          \<and> map msg_dominant (messages c') = [str ''anger'', str ''anger'', str ''sadness'']
          \<and> dominant_emotion (chat_metadata c') = str ''anger''
          \<and> (\<exists>pre post. first_seen (map msg_dominant (messages c'))
                  = pre @ dominant_emotion (chat_metadata c') # post
               \<and> (\<forall>e \<in> set pre. count_list (map msg_dominant (messages c')) e
                     < count_list (map msg_dominant (messages c'))
                         (dominant_emotion (chat_metadata c')))
               \<and> (\<forall>e. count_list (map msg_dominant (messages c')) e
                     \<le> count_list (map msg_dominant (messages c'))
                         (dominant_emotion (chat_metadata c')))))"
proof -
  let ?S2 = "sample_appended [str ''anger'', str ''anger''] sample_created"
  let ?S3 = "sample_appended [str ''anger'', str ''anger'', str ''sadness''] sample_created"
  let ?add = "add_message ?S2 sample_chat_id (str ''user'') (str ''hello'')
      (map (\<lambda>e. (e, 1 / 10)) EmotionType) (str ''sadness'') 1 (str ''low'') (str ''t1'')"
  have e3: "?S3 = fst ?add" by (simp only: sample_appended.simps)
  have s: "snd ?add = None" by (simp add: store_eval)
  have h: "?add = (?S3, None)" unfolding e3 using s by (simp only: prod_eq_iff fst_conv snd_conv simp_thms)
  from dominant_after_append [OF h] obtain c0 c' pre post where
    d: "chats ?S3 sample_chat_id = Some c'"
       "first_seen (map msg_dominant (messages c'))
            = pre @ dominant_emotion (chat_metadata c') # post"
       "\<forall>e \<in> set pre. count_list (map msg_dominant (messages c')) e
              < count_list (map msg_dominant (messages c')) (dominant_emotion (chat_metadata c'))"
       "\<forall>e. count_list (map msg_dominant (messages c')) e
              \<le> count_list (map msg_dominant (messages c')) (dominant_emotion (chat_metadata c'))"
    by blast
  from sample_three d(1) have
    v: "map msg_dominant (messages c') = [str ''anger'', str ''anger'', str ''sadness'']"
       "dominant_emotion (chat_metadata c') = str ''anger''"
    by simp_all
  from d(2,3,4) have inner: "\<exists>pre post. first_seen (map msg_dominant (messages c'))
                  = pre @ dominant_emotion (chat_metadata c') # post
               \<and> (\<forall>e \<in> set pre. count_list (map msg_dominant (messages c')) e
                     < count_list (map msg_dominant (messages c'))
                         (dominant_emotion (chat_metadata c')))
               \<and> (\<forall>e. count_list (map msg_dominant (messages c')) e
                     \<le> count_list (map msg_dominant (messages c'))
                         (dominant_emotion (chat_metadata c')))"
    by - (rule exI [of _ pre], rule exI [of _ post], (rule conjI | assumption)+)
  from d(1) v inner have "\<exists>c'. chats ?S3 sample_chat_id = Some c'
          \<and> map msg_dominant (messages c') = [str ''anger'', str ''anger'', str ''sadness'']
          \<and> dominant_emotion (chat_metadata c') = str ''anger''
          \<and> (\<exists>pre post. first_seen (map msg_dominant (messages c'))
                  = pre @ dominant_emotion (chat_metadata c') # post
               \<and> (\<forall>e \<in> set pre. count_list (map msg_dominant (messages c')) e
                     < count_list (map msg_dominant (messages c'))
                         (dominant_emotion (chat_metadata c')))
               \<and> (\<forall>e. count_list (map msg_dominant (messages c')) e
                     \<le> count_list (map msg_dominant (messages c'))
                         (dominant_emotion (chat_metadata c'))))"
    by - (rule exI [of _ c'], (rule conjI | assumption)+)
  with h show ?thesis by (rule conjI)
qed

end
